theory Spec2Isabelle
  imports Main
begin

section \<open>Data model\<close>

text \<open>
  Python strings are modelled as \<open>string\<close> (lists of 8-bit characters); a code point
  beyond ASCII is its UTF-8 bytes. The exceptions of \<^verbatim>\<open>pydantic_ai_skills.exceptions\<close>
  are values of \<open>error\<close>; any other exception a registry may raise is \<open>OtherError\<close>.
\<close>

datatype error =
    SkillNotFoundError string
  | SkillRegistryError string
  | OtherError string

text \<open>
  Modelled from the spec: the \<^verbatim>\<open>Skill\<close> dataclass of \<^verbatim>\<open>pydantic_ai_skills/types.py\<close>
  (section 3 of the specification). Resources and scripts are kept by name, metadata as
  an optional association list (a value may be Python's \<^verbatim>\<open>None\<close>), absent until a
  registry enriches it.
\<close>

record skill =
  name :: string
  description :: string
  content :: string
  resources :: "string list"
  scripts :: "string list"
  metadata :: "(string \<times> string option) list option"
  uri :: string

subsection \<open>Effects: state passing with errors as values\<close>

text \<open>
  A registry method runs in some world \<open>'w\<close> (in-memory caches, the file system, the
  network): it returns either the raised exception (\<open>Inl\<close>) or its value (\<open>Inr\<close>),
  together with the world it leaves behind. \<open>bind_action\<close> is \<^verbatim>\<open>await\<close> followed by
  the rest of the method body: an exception of the awaited call propagates.
\<close>

type_synonym ('w, 'a) action = "'w \<Rightarrow> (error + 'a) \<times> 'w"

definition return_action :: "'a \<Rightarrow> ('w, 'a) action" where
  "return_action x w = (Inr x, w)"

definition raise :: "error \<Rightarrow> ('w, 'a) action" where
  "raise e w = (Inl e, w)"

definition bind_action :: "('w, 'a) action \<Rightarrow> ('a \<Rightarrow> ('w, 'b) action) \<Rightarrow> ('w, 'b) action" where
  "bind_action m f w = (case m w of (Inl e, w') \<Rightarrow> (Inl e, w') | (Inr x, w') \<Rightarrow> f x w')"

subsection \<open>The registry contract (\<^verbatim>\<open>registries/_base.py\<close>)\<close>

text \<open>
  The five abstract methods of \<^verbatim>\<open>SkillRegistry\<close>. Directories are the strings the
  caller passes and the registry returns.
\<close>

record 'w registry =
  search :: "string \<Rightarrow> int \<Rightarrow> ('w, skill list) action"
  get :: "string \<Rightarrow> ('w, skill) action"
  install :: "string \<Rightarrow> string \<Rightarrow> ('w, string) action"
  update :: "string \<Rightarrow> string \<Rightarrow> ('w, string) action"
  get_skills :: "('w, skill list) action"

subsection \<open>Recording the calls a registry receives\<close>

text \<open>
  \<open>traced i R\<close> behaves as \<open>R\<close> and appends every call it receives, tagged with \<open>i\<close>,
  to a log kept beside the world. A wrapper applied to \<open>traced i R\<close> therefore shows in
  the log exactly the calls it delegates to the registry it wraps.
\<close>

datatype call =
    CallSearch string int
  | CallGet string
  | CallInstall string string
  | CallUpdate string string
  | CallGetSkills

type_synonym 'w logged = "'w \<times> (nat \<times> call) list"

definition record_call :: "nat \<Rightarrow> call \<Rightarrow> ('w, 'a) action \<Rightarrow> ('w logged, 'a) action" where
  "record_call i c m = (\<lambda>(w, log). case m w of (r, w') \<Rightarrow> (r, (w', log @ [(i, c)])))"

definition traced :: "nat \<Rightarrow> 'w registry \<Rightarrow> ('w logged) registry" where
  "traced i R =
     \<lparr> search = (\<lambda>query limit. record_call i (CallSearch query limit) (search R query limit)),
       get = (\<lambda>skill_name. record_call i (CallGet skill_name) (get R skill_name)),
       install = (\<lambda>skill_name target_dir.
          record_call i (CallInstall skill_name target_dir) (install R skill_name target_dir)),
       update = (\<lambda>skill_name target_dir.
          record_call i (CallUpdate skill_name target_dir) (update R skill_name target_dir)),
       get_skills = record_call i CallGetSkills (get_skills R) \<rparr>"

subsection \<open>String helpers of the Python source\<close>

text \<open>\<^verbatim>\<open>s.startswith(p)\<close> and the apostrophe used in the messages.\<close>

definition startswith :: "string \<Rightarrow> string \<Rightarrow> bool" where
  "startswith s p = (take (length p) s = p)"

definition apostrophe :: string where
  "apostrophe = [CHR 0x27]"

text \<open>\<^verbatim>\<open>str(n)\<close> for a length.\<close>

fun str_of_nat :: "nat \<Rightarrow> string" where
  "str_of_nat n =
     (if n < 10 then [char_of (48 + n)]
      else str_of_nat (n div 10) @ [char_of (48 + n mod 10)])"

section \<open>Wrapper base (\<^verbatim>\<open>registries/wrapper.py\<close>)\<close>

definition WrapperRegistry :: "'w registry \<Rightarrow> 'w registry" where
  "WrapperRegistry wrapped =
     \<lparr> search = (\<lambda>query limit. search wrapped query limit),
       get = (\<lambda>skill_name. get wrapped skill_name),
       install = (\<lambda>skill_name target_dir. install wrapped skill_name target_dir),
       update = (\<lambda>skill_name target_dir. update wrapped skill_name target_dir),
       get_skills = get_skills wrapped \<rparr>"

section \<open>Prefixed view (\<^verbatim>\<open>registries/prefixed.py\<close>)\<close>

definition add_prefix :: "string \<Rightarrow> skill \<Rightarrow> skill" where
  "add_prefix prefix sk = sk\<lparr>name := prefix @ name sk\<rparr>"

definition strip_prefix :: "string \<Rightarrow> string \<Rightarrow> string" where
  "strip_prefix prefix skill_name =
     (if startswith skill_name prefix then drop (length prefix) skill_name else skill_name)"

definition prefixed_search :: "'w registry \<Rightarrow> string \<Rightarrow> string \<Rightarrow> int \<Rightarrow> ('w, skill list) action" where
  "prefixed_search wrapped prefix query limit =
     bind_action (search wrapped query limit)
       (\<lambda>results. return_action (map (add_prefix prefix) results))"

definition prefixed_not_found :: "string \<Rightarrow> string \<Rightarrow> error" where
  "prefixed_not_found prefix skill_name =
     SkillNotFoundError (''Skill '' @ apostrophe @ skill_name @ apostrophe
       @ '' not found '' @ [CHR 0xE2, CHR 0x80, CHR 0x94] @ '' expected prefix ''
       @ apostrophe @ prefix @ apostrophe @ ''.'')"

definition prefixed_get :: "'w registry \<Rightarrow> string \<Rightarrow> string \<Rightarrow> ('w, skill) action" where
  "prefixed_get wrapped prefix skill_name =
     (if \<not> startswith skill_name prefix then raise (prefixed_not_found prefix skill_name)
      else bind_action (get wrapped (strip_prefix prefix skill_name))
             (\<lambda>sk. return_action (add_prefix prefix sk)))"

definition prefixed_install :: "'w registry \<Rightarrow> string \<Rightarrow> string \<Rightarrow> string \<Rightarrow> ('w, string) action" where
  "prefixed_install wrapped prefix skill_name target_dir =
     install wrapped (strip_prefix prefix skill_name) target_dir"

definition prefixed_update :: "'w registry \<Rightarrow> string \<Rightarrow> string \<Rightarrow> string \<Rightarrow> ('w, string) action" where
  "prefixed_update wrapped prefix skill_name target_dir =
     update wrapped (strip_prefix prefix skill_name) target_dir"

definition prefixed_get_skills :: "'w registry \<Rightarrow> string \<Rightarrow> ('w, skill list) action" where
  "prefixed_get_skills wrapped prefix =
     bind_action (get_skills wrapped) (\<lambda>skills. return_action (map (add_prefix prefix) skills))"

definition PrefixedRegistry :: "'w registry \<Rightarrow> string \<Rightarrow> 'w registry" where
  "PrefixedRegistry wrapped prefix =
     \<lparr> search = prefixed_search wrapped prefix,
       get = prefixed_get wrapped prefix,
       install = prefixed_install wrapped prefix,
       update = prefixed_update wrapped prefix,
       get_skills = prefixed_get_skills wrapped prefix \<rparr>"

section \<open>Renamed view (\<^verbatim>\<open>registries/renamed.py\<close>)\<close>

text \<open>
  A Python \<^verbatim>\<open>dict\<close> is an association list in insertion order whose keys are distinct.
  \<open>dict_set\<close> is \<^verbatim>\<open>d[k] = v\<close> (an existing key keeps its position), \<open>dict_get\<close> is
  \<^verbatim>\<open>d.get(k)\<close>.
\<close>

type_synonym name_map = "(string \<times> string) list"

fun dict_set :: "'k \<Rightarrow> 'v \<Rightarrow> ('k \<times> 'v) list \<Rightarrow> ('k \<times> 'v) list" where
  "dict_set k v [] = [(k, v)]"
| "dict_set k v ((k', v') # kvs) =
     (if k = k' then (k, v) # kvs else (k', v') # dict_set k v kvs)"

definition dict_get :: "('k \<times> 'v) list \<Rightarrow> 'k \<Rightarrow> 'v option" where
  "dict_get d k = map_of d k"

text \<open>\<^verbatim>\<open>{v: k for k, v in self.name_map.items()}\<close>: a later key overwrites an earlier one.\<close>

definition reverse_map :: "name_map \<Rightarrow> name_map" where
  "reverse_map name_map = fold (\<lambda>(k, v) acc. dict_set v k acc) name_map []"

text \<open>\<^verbatim>\<open>if new_name:\<close> is false for \<^verbatim>\<open>None\<close> and for the empty string.\<close>

definition to_new_name :: "name_map \<Rightarrow> skill \<Rightarrow> skill" where
  "to_new_name name_map sk =
     (case dict_get (reverse_map name_map) (name sk) of
        None \<Rightarrow> sk
      | Some new_name \<Rightarrow> if new_name \<noteq> [] then sk\<lparr>name := new_name\<rparr> else sk)"

definition to_original_name :: "name_map \<Rightarrow> string \<Rightarrow> string" where
  "to_original_name name_map skill_name =
     (case dict_get name_map skill_name of None \<Rightarrow> skill_name | Some original \<Rightarrow> original)"

definition renamed_search :: "'w registry \<Rightarrow> name_map \<Rightarrow> string \<Rightarrow> int \<Rightarrow> ('w, skill list) action" where
  "renamed_search wrapped name_map query limit =
     bind_action (search wrapped query limit)
       (\<lambda>results. return_action (map (to_new_name name_map) results))"

definition renamed_get :: "'w registry \<Rightarrow> name_map \<Rightarrow> string \<Rightarrow> ('w, skill) action" where
  "renamed_get wrapped name_map skill_name =
     bind_action (get wrapped (to_original_name name_map skill_name))
       (\<lambda>sk. return_action (to_new_name name_map sk))"

definition renamed_install :: "'w registry \<Rightarrow> name_map \<Rightarrow> string \<Rightarrow> string \<Rightarrow> ('w, string) action" where
  "renamed_install wrapped name_map skill_name target_dir =
     install wrapped (to_original_name name_map skill_name) target_dir"

definition renamed_update :: "'w registry \<Rightarrow> name_map \<Rightarrow> string \<Rightarrow> string \<Rightarrow> ('w, string) action" where
  "renamed_update wrapped name_map skill_name target_dir =
     update wrapped (to_original_name name_map skill_name) target_dir"

definition renamed_get_skills :: "'w registry \<Rightarrow> name_map \<Rightarrow> ('w, skill list) action" where
  "renamed_get_skills wrapped name_map =
     bind_action (get_skills wrapped)
       (\<lambda>skills. return_action (map (to_new_name name_map) skills))"

definition RenamedRegistry :: "'w registry \<Rightarrow> name_map \<Rightarrow> 'w registry" where
  "RenamedRegistry wrapped name_map =
     \<lparr> search = renamed_search wrapped name_map,
       get = renamed_get wrapped name_map,
       install = renamed_install wrapped name_map,
       update = renamed_update wrapped name_map,
       get_skills = renamed_get_skills wrapped name_map \<rparr>"

section \<open>Filtered view (\<^verbatim>\<open>registries/filtered.py\<close>)\<close>

text \<open>The slice \<^verbatim>\<open>xs[:limit]\<close>: a negative bound counts from the end.\<close>

definition slice_to :: "int \<Rightarrow> 'a list \<Rightarrow> 'a list" where
  "slice_to limit xs =
     (if 0 \<le> limit then take (nat limit) xs else take (length xs - nat (- limit)) xs)"

definition filtered_not_found :: "string \<Rightarrow> error" where
  "filtered_not_found skill_name =
     SkillNotFoundError (''Skill '' @ apostrophe @ skill_name @ apostrophe
       @ '' not found in filtered registry.'')"

definition filtered_search ::
  "'w registry \<Rightarrow> (skill \<Rightarrow> bool) \<Rightarrow> string \<Rightarrow> int \<Rightarrow> ('w, skill list) action" where
  "filtered_search wrapped predicate query limit =
     bind_action (search wrapped query (limit * 5))
       (\<lambda>results. return_action (slice_to limit (filter predicate results)))"

definition filtered_get :: "'w registry \<Rightarrow> (skill \<Rightarrow> bool) \<Rightarrow> string \<Rightarrow> ('w, skill) action" where
  "filtered_get wrapped predicate skill_name =
     bind_action (get wrapped skill_name)
       (\<lambda>sk. if \<not> predicate sk then raise (filtered_not_found skill_name)
             else return_action sk)"

definition filtered_install ::
  "'w registry \<Rightarrow> (skill \<Rightarrow> bool) \<Rightarrow> string \<Rightarrow> string \<Rightarrow> ('w, string) action" where
  "filtered_install wrapped predicate skill_name target_dir =
     bind_action (filtered_get wrapped predicate skill_name)
       (\<lambda>_. install wrapped skill_name target_dir)"

definition filtered_update ::
  "'w registry \<Rightarrow> (skill \<Rightarrow> bool) \<Rightarrow> string \<Rightarrow> string \<Rightarrow> ('w, string) action" where
  "filtered_update wrapped predicate skill_name target_dir =
     bind_action (filtered_get wrapped predicate skill_name)
       (\<lambda>_. update wrapped skill_name target_dir)"

definition filtered_get_skills :: "'w registry \<Rightarrow> (skill \<Rightarrow> bool) \<Rightarrow> ('w, skill list) action" where
  "filtered_get_skills wrapped predicate =
     bind_action (get_skills wrapped) (\<lambda>skills. return_action (filter predicate skills))"

definition FilteredRegistry :: "'w registry \<Rightarrow> (skill \<Rightarrow> bool) \<Rightarrow> 'w registry" where
  "FilteredRegistry wrapped predicate =
     \<lparr> search = filtered_search wrapped predicate,
       get = filtered_get wrapped predicate,
       install = filtered_install wrapped predicate,
       update = filtered_update wrapped predicate,
       get_skills = filtered_get_skills wrapped predicate \<rparr>"

section \<open>Combined registry (\<^verbatim>\<open>registries/combined.py\<close>)\<close>

text \<open>
  \<^verbatim>\<open>asyncio.gather\<close> over the children's searches: every child is started, in list
  order, and the values come back in list order; when a child raises, the first
  exception is the one the caller sees. The children are run one after the other here
  (no interleaving of two children's steps is modelled).
\<close>

fun gather :: "('w, 'a) action list \<Rightarrow> ('w, 'a list) action" where
  "gather [] w = (Inr [], w)"
| "gather (m # ms) w =
     (case m w of (r, w') \<Rightarrow>
        (case gather ms w' of (rs, w'') \<Rightarrow>
           (case r of
              Inl e \<Rightarrow> (Inl e, w'')
            | Inr x \<Rightarrow> (case rs of Inl e' \<Rightarrow> (Inl e', w'') | Inr xs \<Rightarrow> (Inr (x # xs), w'')))))"

text \<open>
  The inner loop of \<^verbatim>\<open>search\<close> over one child's results. The flag is \<open>True\<close> when the
  \<^verbatim>\<open>return merged\<close> inside the loop fired.
\<close>

fun merge_results ::
  "int \<Rightarrow> skill list \<Rightarrow> string set \<Rightarrow> skill list \<Rightarrow> bool \<times> string set \<times> skill list" where
  "merge_results limit [] seen merged = (False, seen, merged)"
| "merge_results limit (sk # results) seen merged =
     (let seen' = (if name sk \<notin> seen then insert (name sk) seen else seen);
          merged' = (if name sk \<notin> seen then merged @ [sk] else merged)
      in if limit \<le> int (length merged') then (True, seen', merged')
         else merge_results limit results seen' merged')"

text \<open>The outer loop over \<^verbatim>\<open>all_results\<close>.\<close>

fun merge_all :: "int \<Rightarrow> skill list list \<Rightarrow> string set \<Rightarrow> skill list \<Rightarrow> skill list" where
  "merge_all limit [] seen merged = merged"
| "merge_all limit (results # all_results) seen merged =
     (case merge_results limit results seen merged of
        (True, seen', merged') \<Rightarrow> merged'
      | (False, seen', merged') \<Rightarrow> merge_all limit all_results seen' merged')"

definition combined_search :: "'w registry list \<Rightarrow> string \<Rightarrow> int \<Rightarrow> ('w, skill list) action" where
  "combined_search registries query limit =
     bind_action (gather (map (\<lambda>reg. search reg query limit) registries))
       (\<lambda>all_results. return_action (merge_all limit all_results {} []))"

definition combined_not_found :: "nat \<Rightarrow> string \<Rightarrow> error" where
  "combined_not_found n skill_name =
     SkillNotFoundError (''Skill '' @ apostrophe @ skill_name @ apostrophe
       @ '' not found in any of the '' @ str_of_nat n @ '' combined registries.'')"

text \<open>
  The loop of \<^verbatim>\<open>get\<close> over the remaining children; \<open>n\<close> is \<^verbatim>\<open>len(self.registries)\<close>.
  Only \<^verbatim>\<open>SkillNotFoundError\<close> is caught.
\<close>

fun combined_get_from :: "nat \<Rightarrow> 'w registry list \<Rightarrow> string \<Rightarrow> ('w, skill) action" where
  "combined_get_from n [] skill_name w = raise (combined_not_found n skill_name) w"
| "combined_get_from n (reg # regs) skill_name w =
     (case get reg skill_name w of
        (Inl (SkillNotFoundError msg), w') \<Rightarrow> combined_get_from n regs skill_name w'
      | (r, w') \<Rightarrow> (r, w'))"

definition combined_get :: "'w registry list \<Rightarrow> string \<Rightarrow> ('w, skill) action" where
  "combined_get registries skill_name =
     combined_get_from (length registries) registries skill_name"

definition combined_install_not_found :: "string \<Rightarrow> error" where
  "combined_install_not_found skill_name =
     SkillNotFoundError (''Skill '' @ apostrophe @ skill_name @ apostrophe
       @ '' not found in any combined registry for install.'')"

definition combined_update_not_found :: "string \<Rightarrow> error" where
  "combined_update_not_found skill_name =
     SkillNotFoundError (''Skill '' @ apostrophe @ skill_name @ apostrophe
       @ '' not found in any combined registry for update.'')"

text \<open>
  \<^verbatim>\<open>install\<close> and \<open>update\<close>: the \<^verbatim>\<open>try\<close> block holds both the \<^verbatim>\<open>get\<close> and the
  mutating call, so a \<^verbatim>\<open>SkillNotFoundError\<close> of either moves on to the next child.
\<close>

fun combined_install :: "'w registry list \<Rightarrow> string \<Rightarrow> string \<Rightarrow> ('w, string) action" where
  "combined_install [] skill_name target_dir w =
     raise (combined_install_not_found skill_name) w"
| "combined_install (reg # regs) skill_name target_dir w =
     (case bind_action (get reg skill_name) (\<lambda>_. install reg skill_name target_dir) w of
        (Inl (SkillNotFoundError msg), w') \<Rightarrow> combined_install regs skill_name target_dir w'
      | (r, w') \<Rightarrow> (r, w'))"

fun combined_update :: "'w registry list \<Rightarrow> string \<Rightarrow> string \<Rightarrow> ('w, string) action" where
  "combined_update [] skill_name target_dir w =
     raise (combined_update_not_found skill_name) w"
| "combined_update (reg # regs) skill_name target_dir w =
     (case bind_action (get reg skill_name) (\<lambda>_. update reg skill_name target_dir) w of
        (Inl (SkillNotFoundError msg), w') \<Rightarrow> combined_update regs skill_name target_dir w'
      | (r, w') \<Rightarrow> (r, w'))"

text \<open>The inner loop of \<^verbatim>\<open>get_skills\<close> over one child's snapshot.\<close>

fun merge_snapshot :: "skill list \<Rightarrow> string set \<Rightarrow> skill list \<Rightarrow> string set \<times> skill list" where
  "merge_snapshot [] seen merged = (seen, merged)"
| "merge_snapshot (sk # skills) seen merged =
     (if name sk \<notin> seen then merge_snapshot skills (insert (name sk) seen) (merged @ [sk])
      else merge_snapshot skills seen merged)"

fun combined_get_skills_from ::
  "'w registry list \<Rightarrow> string set \<Rightarrow> skill list \<Rightarrow> ('w, skill list) action" where
  "combined_get_skills_from [] seen merged w = (Inr merged, w)"
| "combined_get_skills_from (reg # regs) seen merged w =
     (case get_skills reg w of
        (Inl e, w') \<Rightarrow> (Inl e, w')
      | (Inr skills, w') \<Rightarrow>
          (case merge_snapshot skills seen merged of
             (seen', merged') \<Rightarrow> combined_get_skills_from regs seen' merged' w'))"

definition combined_get_skills :: "'w registry list \<Rightarrow> ('w, skill list) action" where
  "combined_get_skills registries = combined_get_skills_from registries {} []"

definition CombinedRegistry :: "'w registry list \<Rightarrow> 'w registry" where
  "CombinedRegistry registries =
     \<lparr> search = combined_search registries,
       get = combined_get registries,
       install = combined_install registries,
       update = combined_update registries,
       get_skills = combined_get_skills registries \<rparr>"

section \<open>Git-backed registry (\<^verbatim>\<open>registries/git.py\<close>)\<close>

subsection \<open>More string helpers\<close>

text \<open>
  \<^verbatim>\<open>s.lower()\<close> on ASCII letters (other bytes are left as they are: the model agrees
  with the source on strings whose cased letters are ASCII),
  \<^verbatim>\<open>q in s\<close>, \<^verbatim>\<open>s.replace(old, new)\<close>, \<^verbatim>\<open>s.strip('/')\<close>, \<^verbatim>\<open>s.rstrip('/')\<close> and
  \<^verbatim>\<open>s.endswith(t)\<close>.
\<close>

definition lower_char :: "char \<Rightarrow> char" where
  "lower_char c =
     (if 65 \<le> (of_char c :: nat) \<and> (of_char c :: nat) \<le> 90 then char_of ((of_char c :: nat) + 32)
      else c)"

definition lower :: "string \<Rightarrow> string" where
  "lower s = map lower_char s"

fun is_substring :: "string \<Rightarrow> string \<Rightarrow> bool" where
  "is_substring q [] = (q = [])"
| "is_substring q (c # s) = (startswith (c # s) q \<or> is_substring q s)"

fun replace_all :: "string \<Rightarrow> string \<Rightarrow> string \<Rightarrow> string" where
  "replace_all old new [] = (if old = [] then new else [])"
| "replace_all old new (c # s) =
     (if old = [] then new @ c # replace_all old new s
      else if startswith (c # s) old
        then new @ replace_all old new (drop (length old) (c # s))
      else c # replace_all old new s)"

definition rstrip_slash :: "string \<Rightarrow> string" where
  "rstrip_slash s = rev (dropWhile (\<lambda>c. c = CHR ''/'') (rev s))"

definition strip_slash :: "string \<Rightarrow> string" where
  "strip_slash s = rstrip_slash (dropWhile (\<lambda>c. c = CHR ''/'') s)"

definition endswith :: "string \<Rightarrow> string \<Rightarrow> bool" where
  "endswith s t = (length t \<le> length s \<and> drop (length s - length t) s = t)"

text \<open>
  \<^verbatim>\<open>repr(s)\<close> of a string: double quotes when the string holds an apostrophe and no
  double quote, apostrophes otherwise; the backslash, the chosen quote, newline, carriage
  return and tab are escaped, and any other ASCII control character is written
  \<^verbatim>\<open>\xNN\<close>. Bytes above \<^verbatim>\<open>0x7F\<close> (the UTF-8 form of characters beyond ASCII) are left as
  they are, as Python leaves printable characters.
\<close>

definition hex_digit :: "nat \<Rightarrow> char" where
  "hex_digit n = (if n < 10 then char_of (48 + n) else char_of (87 + n))"

definition repr_char :: "char \<Rightarrow> char \<Rightarrow> string" where
  "repr_char q c =
     (if c = CHR 0x5C then [CHR 0x5C, CHR 0x5C]
      else if c = q then [CHR 0x5C, q]
      else if c = CHR 0x0A then [CHR 0x5C, CHR ''n'']
      else if c = CHR 0x0D then [CHR 0x5C, CHR ''r'']
      else if c = CHR 0x09 then [CHR 0x5C, CHR ''t'']
      else if (of_char c :: nat) < 32 \<or> (of_char c :: nat) = 127
        then [CHR 0x5C, CHR ''x'', hex_digit ((of_char c :: nat) div 16),
              hex_digit ((of_char c :: nat) mod 16)]
      else [c])"

definition repr_str :: "string \<Rightarrow> string" where
  "repr_str s =
     (let q = (if CHR 0x27 \<in> set s \<and> CHR 0x22 \<notin> set s then CHR 0x22 else CHR 0x27)
      in [q] @ concat (map (repr_char q) s) @ [q])"

subsection \<open>Paths\<close>

text \<open>
  A path is the list of its components below the root. \<open>parse_path\<close> reads the string
  form as \<^verbatim>\<open>pathlib\<close> does for an absolute path: empty components and \<^verbatim>\<open>.\<close> are
  dropped, \<^verbatim>\<open>..\<close> is kept. \<open>path_join p s\<close> is \<^verbatim>\<open>p / s\<close>: an absolute \<open>s\<close> replaces
  \<open>p\<close>. Directories are given as absolute paths; the working directory and the home
  directory are not modelled.
\<close>

type_synonym fspath = "string list"

fun split_slash :: "string \<Rightarrow> string \<Rightarrow> string list" where
  "split_slash acc [] = [acc]"
| "split_slash acc (c # s) =
     (if c = CHR ''/'' then acc # split_slash [] s else split_slash (acc @ [c]) s)"

definition parse_path :: "string \<Rightarrow> fspath" where
  "parse_path s = filter (\<lambda>c. c \<noteq> [] \<and> c \<noteq> ''.'') (split_slash [] s)"

definition path_join :: "fspath \<Rightarrow> string \<Rightarrow> fspath" where
  "path_join p s = (if startswith s ''/'' then parse_path s else p @ parse_path s)"

definition path_str :: "fspath \<Rightarrow> string" where
  "path_str p = (if p = [] then ''/'' else concat (map (\<lambda>c. ''/'' @ c) p))"

definition is_relative_to :: "fspath \<Rightarrow> fspath \<Rightarrow> bool" where
  "is_relative_to p root = (take (length root) p = root)"

subsection \<open>The standard library's URL functions\<close>

text \<open>
  \<^verbatim>\<open>urllib.parse\<close> is not part of the repository: its functions are parameters of the
  model. \<open>url_parts\<close> is the 6-tuple \<^verbatim>\<open>urlparse\<close> returns; \<open>hostname\<close>, \<open>port\<close> and
  \<open>password\<close> are the properties the source reads from it.
\<close>

record url_parts =
  url_scheme :: string
  url_netloc :: string
  url_path :: string
  url_params :: string
  url_query :: string
  url_fragment :: string

record urllib =
  urlparse :: "string \<Rightarrow> url_parts"
  urlunparse :: "url_parts \<Rightarrow> string"
  hostname :: "url_parts \<Rightarrow> string option"
  port :: "url_parts \<Rightarrow> nat option"
  password :: "url_parts \<Rightarrow> string option"

text \<open>\<^verbatim>\<open>f'{x}'\<close> of an optional string.\<close>

definition format_opt :: "string option \<Rightarrow> string" where
  "format_opt x = (case x of None \<Rightarrow> ''None'' | Some s \<Rightarrow> s)"

definition with_port :: "urllib \<Rightarrow> url_parts \<Rightarrow> string \<Rightarrow> string" where
  "with_port U parsed nl =
     (case port U parsed of
        None \<Rightarrow> nl
      | Some p \<Rightarrow> if p \<noteq> 0 then nl @ '':'' @ str_of_nat p else nl)"

definition inject_token_into_url :: "urllib \<Rightarrow> string \<Rightarrow> string \<Rightarrow> string" where
  "inject_token_into_url U repo_url token =
     (let parsed = urlparse U repo_url
      in if url_scheme parsed = ''http'' \<or> url_scheme parsed = ''https''
         then urlunparse U (parsed\<lparr>url_netloc :=
                with_port U parsed (''oauth2:'' @ token @ ''@'' @ format_opt (hostname U parsed))\<rparr>)
         else repo_url)"

definition sanitize_url :: "urllib \<Rightarrow> string \<Rightarrow> string" where
  "sanitize_url U repo_url =
     (let parsed = urlparse U repo_url
      in if password U parsed \<noteq> None \<and> password U parsed \<noteq> Some []
         then urlunparse U (parsed\<lparr>url_netloc := with_port U parsed (format_opt (hostname U parsed))\<rparr>)
         else repo_url)"

definition sanitize_error_message :: "string \<Rightarrow> string \<Rightarrow> string \<Rightarrow> string" where
  "sanitize_error_message exc clone_url clean_url = replace_all clone_url clean_url exc"

definition build_source_url :: "string \<Rightarrow> string \<Rightarrow> string \<Rightarrow> string option \<Rightarrow> string" where
  "build_source_url repo_url path skill_name branch =
     (let ref = (case branch of None \<Rightarrow> ''main'' | Some b \<Rightarrow> if b = [] then ''main'' else b);
          skill_path = strip_slash (path @ ''/'' @ skill_name);
          clean_url = rstrip_slash repo_url;
          clean_url' = (if endswith clean_url ''.git''
                        then take (length clean_url - 4) clean_url else clean_url)
      in clean_url' @ ''/tree/'' @ ref @ ''/'' @ skill_path)"

subsection \<open>The registry object and the world it runs in\<close>

record clone_options =
  depth :: "int option"
  branch :: "string option"
  single_branch :: bool
  sparse_paths :: "string list"
  env :: "(string \<times> string) list"
  multi_options :: "string list"
  git_options :: "(string \<times> string) list"

text \<open>The attributes \<^verbatim>\<open>__init__\<close> sets once; the skill cache is part of the world.\<close>

record git_registry =
  repo_url :: string
  path :: string
  validate :: bool
  auto_install :: bool
  options :: clone_options
  token :: "string option"
  clone_url :: string
  target_dir :: fspath
  clean_repo_url :: string

text \<open>
  The version-control client (GitPython), the skill loader (\<^verbatim>\<open>discover_skills\<close>) and
  the file system are outside the repository: they are parameters, acting on an
  external state \<open>'x\<close>. A \<open>Some msg\<close> outcome is the exception the call raised
  (\<^verbatim>\<open>GitCommandError\<close> for the client, \<^verbatim>\<open>OSError\<close> for the file system). The options are
  handed to the client as they are (the source copies them into keyword arguments).
\<close>

datatype pull_outcome = PullOk | PullInvalidRepository | PullGitCommandError string

record 'x os =
  is_valid_repo :: "fspath \<Rightarrow> 'x \<Rightarrow> bool"
  clone_from :: "string \<Rightarrow> fspath \<Rightarrow> clone_options \<Rightarrow> 'x \<Rightarrow> string option \<times> 'x"
  sparse_checkout :: "fspath \<Rightarrow> string list \<Rightarrow> 'x \<Rightarrow> string option \<times> 'x"
  pull :: "fspath \<Rightarrow> clone_options \<Rightarrow> 'x \<Rightarrow> pull_outcome \<times> 'x"
  head_commit :: "fspath \<Rightarrow> 'x \<Rightarrow> string option"
  discover_skills :: "fspath \<Rightarrow> bool \<Rightarrow> nat \<Rightarrow> 'x \<Rightarrow> skill list"
  path_exists :: "fspath \<Rightarrow> 'x \<Rightarrow> bool"
  resolve :: "fspath \<Rightarrow> 'x \<Rightarrow> fspath"
  rglob :: "fspath \<Rightarrow> 'x \<Rightarrow> fspath list"
  is_symlink :: "fspath \<Rightarrow> 'x \<Rightarrow> bool"
  is_file :: "fspath \<Rightarrow> 'x \<Rightarrow> bool"
  mkdir :: "fspath \<Rightarrow> 'x \<Rightarrow> string option \<times> 'x"
  rmtree :: "fspath \<Rightarrow> 'x \<Rightarrow> string option \<times> 'x"
  copytree :: "fspath \<Rightarrow> fspath \<Rightarrow> 'x \<Rightarrow> string option \<times> 'x"

text \<open>
  The world of a Git registry: its cache (\<^verbatim>\<open>self._cached_skills\<close>), the external state,
  and a record of every call that reaches the client or changes the file system, in
  order (kept for the statements about what an operation does and does not do).
\<close>

datatype effect =
    Clone
  | SparseCheckout
  | Pull
  | Mkdir fspath
  | Rmtree fspath
  | Copytree fspath fspath

record 'x git_world =
  cached_skills :: "skill list"
  effects :: "effect list"
  ext :: 'x

definition perform ::
  "effect \<Rightarrow> ('x \<Rightarrow> 'r \<times> 'x) \<Rightarrow> 'x git_world \<Rightarrow> 'r \<times> 'x git_world" where
  "perform ef f w =
     (case f (ext w) of (r, x') \<Rightarrow> (r, w\<lparr>effects := effects w @ [ef], ext := x'\<rparr>))"

subsection \<open>Internal helpers\<close>

definition skills_root :: "git_registry \<Rightarrow> fspath" where
  "skills_root self = (if path self \<noteq> [] then path_join (target_dir self) (path self)
                       else target_dir self)"

definition is_cloned :: "'x os \<Rightarrow> git_registry \<Rightarrow> 'x git_world \<Rightarrow> bool" where
  "is_cloned os self w = is_valid_repo os (target_dir self) (ext w)"

definition git_error :: "git_registry \<Rightarrow> string \<Rightarrow> string \<Rightarrow> error" where
  "git_error self what exc =
     SkillRegistryError
       (what @ sanitize_error_message exc (clone_url self) (clean_repo_url self))"

definition clone :: "'x os \<Rightarrow> git_registry \<Rightarrow> ('x git_world, unit) action" where
  "clone os self w =
     (case perform (Mkdir (target_dir self)) (mkdir os (target_dir self)) w of
        (Some oserr, w1) \<Rightarrow> (Inl (OtherError oserr), w1)
      | (None, w1) \<Rightarrow>
         (case perform Clone (clone_from os (clone_url self) (target_dir self) (options self)) w1 of
            (Some exc, w2) \<Rightarrow>
              (Inl (git_error self
                 (''Failed to clone repository '' @ repr_str (clean_repo_url self) @ '': '') exc), w2)
          | (None, w2) \<Rightarrow>
              if sparse_paths (options self) \<noteq> [] then
                (case perform SparseCheckout
                        (sparse_checkout os (target_dir self) (sparse_paths (options self))) w2 of
                   (Some exc, w3) \<Rightarrow>
                     (Inl (git_error self ''Failed to configure sparse checkout: '' exc), w3)
                 | (None, w3) \<Rightarrow> (Inr (), w3))
              else (Inr (), w2)))"

definition pull_latest :: "'x os \<Rightarrow> git_registry \<Rightarrow> ('x git_world, unit) action" where
  "pull_latest os self w =
     (case perform Pull (pull os (target_dir self) (options self)) w of
        (PullOk, w1) \<Rightarrow> (Inr (), w1)
      | (PullInvalidRepository, w1) \<Rightarrow>
          (case perform (Rmtree (target_dir self)) (rmtree os (target_dir self)) w1 of
             (ignored, w2) \<Rightarrow> clone os self w2)
      | (PullGitCommandError exc, w1) \<Rightarrow>
          (Inl (git_error self
             (''Failed to pull latest changes from '' @ repr_str (clean_repo_url self) @ '': '') exc),
           w1))"

definition ensure_cloned :: "'x os \<Rightarrow> git_registry \<Rightarrow> ('x git_world, unit) action" where
  "ensure_cloned os self w =
     (if is_cloned os self w then pull_latest os self w else clone os self w)"

definition get_commit_sha :: "'x os \<Rightarrow> git_registry \<Rightarrow> 'x git_world \<Rightarrow> string option" where
  "get_commit_sha os self w = head_commit os (target_dir self) (ext w)"

definition load_skills :: "'x os \<Rightarrow> git_registry \<Rightarrow> 'x git_world \<Rightarrow> skill list" where
  "load_skills os self w =
     (if \<not> path_exists os (skills_root self) (ext w) then []
      else discover_skills os (skills_root self) (validate self) 2 (ext w))"

text \<open>\<^verbatim>\<open>existing.update(extra)\<close> sets the four keys in this order.\<close>

definition enrich_metadata ::
  "'x os \<Rightarrow> git_registry \<Rightarrow> 'x git_world \<Rightarrow> string option \<Rightarrow> skill \<Rightarrow> skill" where
  "enrich_metadata os self w version sk =
     (let extra =
            [(''source_url'', Some (build_source_url (clean_repo_url self) (path self) (name sk)
                                     (branch (options self)))),
             (''registry'', Some ''GitSkillsRegistry''),
             (''repo'', Some (clean_repo_url self)),
             (''version'', (case version of
                              Some v \<Rightarrow> if v \<noteq> [] then Some v else get_commit_sha os self w
                            | None \<Rightarrow> get_commit_sha os self w))];
          existing = (case metadata sk of None \<Rightarrow> [] | Some m \<Rightarrow> m)
      in sk\<lparr>metadata := Some (fold (\<lambda>(k, v) d. dict_set k v d) extra existing)\<rparr>)"

definition rebuild_cache :: "'x os \<Rightarrow> git_registry \<Rightarrow> 'x git_world \<Rightarrow> 'x git_world" where
  "rebuild_cache os self w =
     w\<lparr>cached_skills := map (enrich_metadata os self w None) (load_skills os self w)\<rparr>"

definition refresh :: "'x os \<Rightarrow> git_registry \<Rightarrow> ('x git_world, unit) action" where
  "refresh os self =
     bind_action (ensure_cloned os self) (\<lambda>_ w. (Inr (), rebuild_cache os self w))"

definition ensure_skills_loaded :: "'x os \<Rightarrow> git_registry \<Rightarrow> ('x git_world, unit) action" where
  "ensure_skills_loaded os self w =
     (if cached_skills w \<noteq> [] then (Inr (), w)
      else bind_action
             (if auto_install self then ensure_cloned os self else return_action ())
             (\<lambda>_ w'. (Inr (), rebuild_cache os self w')) w)"

subsection \<open>The registry interface\<close>

definition git_get_skills :: "'x os \<Rightarrow> git_registry \<Rightarrow> ('x git_world, skill list) action" where
  "git_get_skills os self =
     bind_action (ensure_skills_loaded os self) (\<lambda>_ w. (Inr (cached_skills w), w))"

definition matches :: "string \<Rightarrow> skill \<Rightarrow> bool" where
  "matches q sk = (is_substring q (lower (name sk)) \<or> is_substring q (lower (description sk)))"

text \<open>The loop of \<^verbatim>\<open>search\<close>; it leaves by \<^verbatim>\<open>break\<close> after the append that reaches the limit.\<close>

fun search_loop :: "string \<Rightarrow> int \<Rightarrow> skill list \<Rightarrow> skill list \<Rightarrow> skill list" where
  "search_loop q limit [] results = results"
| "search_loop q limit (sk # skills) results =
     (if matches q sk
      then (if limit \<le> int (length (results @ [sk])) then results @ [sk]
            else search_loop q limit skills (results @ [sk]))
      else search_loop q limit skills results)"

definition git_search ::
  "'x os \<Rightarrow> git_registry \<Rightarrow> string \<Rightarrow> int \<Rightarrow> ('x git_world, skill list) action" where
  "git_search os self query limit =
     bind_action (git_get_skills os self)
       (\<lambda>skills. return_action (search_loop (lower query) limit skills []))"

definition git_not_found :: "git_registry \<Rightarrow> string \<Rightarrow> string \<Rightarrow> error" where
  "git_not_found self place skill_name =
     SkillNotFoundError (''Skill '' @ apostrophe @ skill_name @ apostrophe
       @ '' not found in '' @ place @ '' '' @ repr_str (clean_repo_url self) @ ''.'')"

definition git_get :: "'x os \<Rightarrow> git_registry \<Rightarrow> string \<Rightarrow> ('x git_world, skill) action" where
  "git_get os self skill_name =
     bind_action (git_get_skills os self)
       (\<lambda>skills. case find (\<lambda>sk. name sk = skill_name) skills of
                    Some sk \<Rightarrow> return_action sk
                  | None \<Rightarrow> raise (git_not_found self ''registry'' skill_name))"

text \<open>
  \<^verbatim>\<open>install\<close>: the first cached skill of that name with a non-empty \<^verbatim>\<open>uri\<close> gives the
  source directory.
\<close>

definition find_source :: "skill list \<Rightarrow> string \<Rightarrow> fspath option" where
  "find_source cache skill_name =
     (case find (\<lambda>sk. name sk = skill_name \<and> uri sk \<noteq> []) cache of
        None \<Rightarrow> None
      | Some sk \<Rightarrow> Some (parse_path (uri sk)))"

definition destination_escapes :: "fspath \<Rightarrow> fspath \<Rightarrow> error" where
  "destination_escapes dest_skill_dir dest_root =
     SkillRegistryError (''Destination path '' @ apostrophe @ path_str dest_skill_dir @ apostrophe
       @ '' escapes target directory '' @ apostrophe @ path_str dest_root @ apostrophe @ ''.'')"

definition source_escapes :: "fspath \<Rightarrow> error" where
  "source_escapes src_file =
     SkillRegistryError (''Source path '' @ apostrophe @ path_str src_file @ apostrophe
       @ '' escapes skill directory (path traversal detected).'')"

text \<open>The loop over \<^verbatim>\<open>src_resolved.rglob('*')\<close>: the first escaping file or symlink raises.\<close>

fun check_sources :: "'x os \<Rightarrow> fspath \<Rightarrow> fspath list \<Rightarrow> 'x \<Rightarrow> error option" where
  "check_sources os src_resolved [] x = None"
| "check_sources os src_resolved (src_file # rest) x =
     (if (is_symlink os src_file x \<or> is_file os src_file x)
         \<and> \<not> is_relative_to (resolve os src_file x) src_resolved
      then Some (source_escapes src_file)
      else check_sources os src_resolved rest x)"

definition copy_skill :: "'x os \<Rightarrow> fspath \<Rightarrow> fspath \<Rightarrow> ('x git_world, string) action" where
  "copy_skill os src_resolved dest_skill_dir w =
     (case (if path_exists os dest_skill_dir (ext w)
            then perform (Rmtree dest_skill_dir) (rmtree os dest_skill_dir) w
            else (None, w)) of
        (Some oserr, w1) \<Rightarrow> (Inl (OtherError oserr), w1)
      | (None, w1) \<Rightarrow>
          (case perform (Copytree src_resolved dest_skill_dir)
                        (copytree os src_resolved dest_skill_dir) w1 of
             (Some oserr, w2) \<Rightarrow> (Inl (OtherError oserr), w2)
           | (None, w2) \<Rightarrow> (Inr (path_str dest_skill_dir), w2)))"

definition install_from ::
  "'x os \<Rightarrow> fspath \<Rightarrow> string \<Rightarrow> string \<Rightarrow> ('x git_world, string) action" where
  "install_from os src_skill_dir skill_name target w =
     (let dest_root = resolve os (parse_path target) (ext w)
      in case perform (Mkdir dest_root) (mkdir os dest_root) w of
           (Some oserr, w1) \<Rightarrow> (Inl (OtherError oserr), w1)
         | (None, w1) \<Rightarrow>
             (let dest_skill_dir = path_join dest_root skill_name
              in if \<not> is_relative_to (resolve os dest_skill_dir (ext w1)) dest_root
                 then (Inl (destination_escapes dest_skill_dir dest_root), w1)
                 else (let src_resolved = resolve os src_skill_dir (ext w1)
                       in case check_sources os src_resolved
                                 (rglob os src_resolved (ext w1)) (ext w1) of
                            Some e \<Rightarrow> (Inl e, w1)
                          | None \<Rightarrow> copy_skill os src_resolved dest_skill_dir w1)))"

definition git_install ::
  "'x os \<Rightarrow> git_registry \<Rightarrow> string \<Rightarrow> string \<Rightarrow> ('x git_world, string) action" where
  "git_install os self skill_name target =
     bind_action (ensure_skills_loaded os self)
       (\<lambda>_ w. case find_source (cached_skills w) skill_name of
                 None \<Rightarrow> (Inl (git_not_found self ''repository'' skill_name), w)
               | Some src_skill_dir \<Rightarrow> install_from os src_skill_dir skill_name target w)"

definition git_update ::
  "'x os \<Rightarrow> git_registry \<Rightarrow> string \<Rightarrow> string \<Rightarrow> ('x git_world, string) action" where
  "git_update os self skill_name target w =
     (let dest = path_join (resolve os (parse_path target) (ext w)) skill_name
      in if \<not> path_exists os dest (ext w) then git_install os self skill_name target w
         else bind_action (refresh os self) (\<lambda>_. git_install os self skill_name target) w)"

definition GitSkillsRegistry :: "'x os \<Rightarrow> git_registry \<Rightarrow> ('x git_world) registry" where
  "GitSkillsRegistry os self =
     \<lparr> search = git_search os self,
       get = git_get os self,
       install = git_install os self,
       update = git_update os self,
       get_skills = git_get_skills os self \<rparr>"

subsection \<open>Construction and \<^verbatim>\<open>__repr__\<close>\<close>

text \<open>
  The arguments of \<^verbatim>\<open>__init__\<close>. \<open>environ_token\<close> is \<^verbatim>\<open>os.environ.get('GITHUB_TOKEN')\<close>
  and \<open>tmp_dir\<close> the name of the temporary directory the constructor would create.
  The permission warning for the SSH key is not modelled.
\<close>

record git_args =
  arg_repo_url :: string
  arg_target_dir :: "string option"
  arg_path :: string
  arg_token :: "string option"
  arg_ssh_key_file :: "string option"
  arg_clone_options :: "clone_options option"
  arg_validate :: bool
  arg_auto_install :: bool

definition default_clone_options :: clone_options where
  "default_clone_options =
     \<lparr> depth = None, branch = None, single_branch = False, sparse_paths = [], env = [],
       multi_options = [], git_options = [] \<rparr>"

definition truthy :: "string option \<Rightarrow> bool" where
  "truthy x = (x \<noteq> None \<and> x \<noteq> Some [])"

definition make_registry ::
  "urllib \<Rightarrow> 'x os \<Rightarrow> string option \<Rightarrow> fspath \<Rightarrow> git_args \<Rightarrow> 'x \<Rightarrow> git_registry" where
  "make_registry U os environ_token tmp_dir args x =
     (let opts = (case arg_clone_options args of None \<Rightarrow> default_clone_options | Some opts \<Rightarrow> opts);
          effective_token = (if truthy (arg_token args) then arg_token args else environ_token);
          opts' = (case arg_ssh_key_file args of
                     None \<Rightarrow> opts
                   | Some f \<Rightarrow>
                       opts\<lparr>env := dict_set ''GIT_SSH_COMMAND''
                                (''ssh -i '' @ path_str (resolve os (parse_path f) x)
                                 @ '' -o StrictHostKeyChecking=no'') (env opts)\<rparr>)
      in \<lparr> repo_url = arg_repo_url args,
           path = strip_slash (arg_path args),
           validate = arg_validate args,
           auto_install = arg_auto_install args,
           options = opts',
           token = effective_token,
           clone_url = (case effective_token of
                          None \<Rightarrow> arg_repo_url args
                        | Some t \<Rightarrow> if t \<noteq> [] then inject_token_into_url U (arg_repo_url args) t
                                    else arg_repo_url args),
           target_dir = (case arg_target_dir args of
                           None \<Rightarrow> tmp_dir
                         | Some d \<Rightarrow> resolve os (parse_path d) x),
           clean_repo_url = sanitize_url U (arg_repo_url args) \<rparr>)"

text \<open>
  \<^verbatim>\<open>__init__\<close>: the cache starts empty and is filled eagerly under auto-install. (The
  \<^verbatim>\<open>ImportError\<close> of a missing GitPython is not modelled: the client is present.)
\<close>

definition git_init ::
  "urllib \<Rightarrow> 'x os \<Rightarrow> string option \<Rightarrow> fspath \<Rightarrow> git_args \<Rightarrow> 'x \<Rightarrow>
     (error + git_registry) \<times> 'x git_world" where
  "git_init U os environ_token tmp_dir args x =
     (let self = make_registry U os environ_token tmp_dir args x;
          w = \<lparr> cached_skills = [], effects = [], ext = x \<rparr>
      in if auto_install self
         then (case ensure_cloned os self w of
                 (Inl e, w') \<Rightarrow> (Inl e, w')
               | (Inr _, w') \<Rightarrow> (Inr self, rebuild_cache os self w'))
         else (Inr self, w))"

definition git_repr :: "git_registry \<Rightarrow> string" where
  "git_repr self =
     ''GitSkillsRegistry('' @ ''repo_url='' @ repr_str (clean_repo_url self) @ '', ''
       @ ''path='' @ repr_str (path self) @ '', ''
       @ ''target_dir='' @ repr_str (path_str (target_dir self)) @ '')''"

text \<open>The class defines no \<^verbatim>\<open>__str__\<close>: \<^verbatim>\<open>str(registry)\<close> is \<^verbatim>\<open>repr(registry)\<close>.\<close>

definition git_str :: "git_registry \<Rightarrow> string" where
  "git_str self = git_repr self"

section \<open>Concrete collaborators for evaluation\<close>

subsection \<open>The in-memory registry of the test suite (\<^verbatim>\<open>tests/test_registry_composition.py\<close>)\<close>

text \<open>
  \<^verbatim>\<open>StubRegistry\<close> holds a fixed list of skills and leaves the world as it is (the
  directory its \<^verbatim>\<open>install\<close> creates is not modelled).
\<close>

definition stub_not_found :: "string \<Rightarrow> error" where
  "stub_not_found skill_name =
     SkillNotFoundError (''Skill '' @ apostrophe @ skill_name @ apostrophe @ '' not found.'')"

definition stub_get :: "skill list \<Rightarrow> string \<Rightarrow> ('w, skill) action" where
  "stub_get skills skill_name =
     (case find (\<lambda>sk. name sk = skill_name) skills of
        Some sk \<Rightarrow> return_action sk
      | None \<Rightarrow> raise (stub_not_found skill_name))"

definition stub_install :: "skill list \<Rightarrow> string \<Rightarrow> string \<Rightarrow> ('w, string) action" where
  "stub_install skills skill_name target =
     bind_action (stub_get skills skill_name)
       (\<lambda>_. return_action (path_str (path_join (parse_path target) skill_name)))"

definition StubRegistry :: "skill list \<Rightarrow> 'w registry" where
  "StubRegistry skills =
     \<lparr> search = (\<lambda>query limit.
          return_action (slice_to limit (filter (matches (lower query)) skills))),
       get = stub_get skills,
       install = stub_install skills,
       update = stub_install skills,
       get_skills = return_action skills \<rparr>"

definition mk_skill :: "string \<Rightarrow> string \<Rightarrow> string \<Rightarrow> skill" where
  "mk_skill n d c =
     \<lparr> name = n, description = d, content = c, resources = [], scripts = [],
       metadata = None, uri = ''skill://'' @ n \<rparr>"

subsection \<open>An in-memory file system\<close>

text \<open>
  The external state for evaluation: the regular files on disk, the symbolic links (each
  with the path it points to), the skills the loader finds in the working tree, and
  whether the working tree is a repository. Directories exist when a file lies below
  them; \<open>resolve\<close> removes \<^verbatim>\<open>..\<close> components and follows a link when the path itself
  is one.
\<close>

record mem =
  mem_files :: "fspath list"
  mem_links :: "(fspath \<times> fspath) list"
  mem_skills :: "skill list"
  mem_cloned :: bool

fun normalise :: "fspath \<Rightarrow> fspath \<Rightarrow> fspath" where
  "normalise acc [] = acc"
| "normalise acc (c # cs) =
     (if c = ''..'' then normalise (butlast acc) cs else normalise (acc @ [c]) cs)"

definition below :: "fspath \<Rightarrow> fspath \<Rightarrow> bool" where
  "below root p = (length root < length p \<and> take (length root) p = root)"

definition mem_os :: "mem os" where
  "mem_os =
     \<lparr> is_valid_repo = (\<lambda>p x. mem_cloned x),
       clone_from = (\<lambda>url p opts x. (None, x\<lparr>mem_cloned := True\<rparr>)),
       sparse_checkout = (\<lambda>p paths x. (None, x)),
       pull = (\<lambda>p opts x. (if mem_cloned x then PullOk else PullInvalidRepository, x)),
       head_commit = (\<lambda>p x. None),
       discover_skills = (\<lambda>p v d x. mem_skills x),
       path_exists = (\<lambda>p x. normalise [] p = []
                              \<or> (\<exists>f \<in> set (mem_files x). is_relative_to f (normalise [] p))),
       resolve = (\<lambda>p x. case map_of (mem_links x) (normalise [] p) of
                          None \<Rightarrow> normalise [] p
                        | Some t \<Rightarrow> normalise [] t),
       rglob = (\<lambda>p x. filter (below p) (mem_files x @ map fst (mem_links x))),
       is_symlink = (\<lambda>p x. map_of (mem_links x) p \<noteq> None),
       is_file = (\<lambda>p x. p \<in> set (mem_files x)),
       mkdir = (\<lambda>p x. (None, x)),
       rmtree = (\<lambda>p x.
          (None, x\<lparr>mem_files := filter (\<lambda>f. \<not> is_relative_to f (normalise [] p)) (mem_files x)\<rparr>)),
       copytree = (\<lambda>src dst x.
          (None, x\<lparr>mem_files := mem_files x
                     @ map (\<lambda>f. normalise [] dst @ drop (length src) f)
                         (filter (below src) (mem_files x))\<rparr>)) \<rparr>"

subsection \<open>A model of \<^verbatim>\<open>urllib.parse\<close> for plain URLs\<close>

text \<open>
  Follows CPython's \<^verbatim>\<open>urlsplit\<close>, \<^verbatim>\<open>urlparse\<close> and \<^verbatim>\<open>urlunparse\<close> on URLs without
  surrounding white space, control characters or bracketed hosts; a port that is not a
  number reads as absent (CPython raises there).
\<close>

definition split_at :: "char \<Rightarrow> string \<Rightarrow> string \<times> string" where
  "split_at c s = (takeWhile (\<lambda>d. d \<noteq> c) s, drop 1 (dropWhile (\<lambda>d. d \<noteq> c) s))"

definition is_alpha :: "char \<Rightarrow> bool" where
  "is_alpha c = (let n = (of_char c :: nat) in (65 \<le> n \<and> n \<le> 90) \<or> (97 \<le> n \<and> n \<le> 122))"

definition is_digit :: "char \<Rightarrow> bool" where
  "is_digit c = (let n = (of_char c :: nat) in 48 \<le> n \<and> n \<le> 57)"

definition scheme_char :: "char \<Rightarrow> bool" where
  "scheme_char c = (is_alpha c \<or> is_digit c \<or> c \<in> set ''+-.'')"

definition split_scheme :: "string \<Rightarrow> string \<times> string" where
  "split_scheme url =
     (let i = length (takeWhile (\<lambda>c. c \<noteq> CHR '':'') url)
      in if i < length url \<and> 0 < i \<and> list_all is_alpha (take 1 url)
            \<and> list_all scheme_char (take i url)
         then (lower (take i url), drop (Suc i) url)
         else ([], url))"

definition split_netloc :: "string \<Rightarrow> string \<times> string" where
  "split_netloc url =
     (if take 2 url = ''//''
      then (takeWhile (\<lambda>c. c \<notin> set ''/?#'') (drop 2 url),
            dropWhile (\<lambda>c. c \<notin> set ''/?#'') (drop 2 url))
      else ([], url))"

definition uses_params :: "string list" where
  "uses_params = [[], ''ftp'', ''hdl'', ''prospero'', ''http'', ''imap'', ''https'', ''shttp'',
                  ''rtsp'', ''rtspu'', ''sip'', ''sips'', ''mms'', ''sftp'', ''tel'']"

definition split_params :: "string \<Rightarrow> string \<times> string" where
  "split_params url =
     (let last_seg = rev (takeWhile (\<lambda>c. c \<noteq> CHR ''/'') (rev url));
          front = take (length url - length last_seg) url
      in if CHR '';'' \<in> set last_seg
         then (front @ fst (split_at CHR '';'' last_seg), snd (split_at CHR '';'' last_seg))
         else (url, []))"

definition py_urlparse :: "string \<Rightarrow> url_parts" where
  "py_urlparse url =
     (let (sch, r1) = split_scheme url;
          (nl, r2) = split_netloc r1;
          (r3, frag) = split_at CHR ''#'' r2;
          (r4, q) = split_at CHR ''?'' r3;
          (pth, prm) = (if sch \<in> set uses_params \<and> CHR '';'' \<in> set r4
                        then split_params r4 else (r4, []))
      in \<lparr> url_scheme = sch, url_netloc = nl, url_path = pth, url_params = prm,
           url_query = q, url_fragment = frag \<rparr>)"

definition py_urlunparse :: "url_parts \<Rightarrow> string" where
  "py_urlunparse parts =
     (let u0 = (if url_params parts \<noteq> [] then url_path parts @ '';'' @ url_params parts
                else url_path parts);
          u1 = (if url_netloc parts \<noteq> []
                then ''//'' @ url_netloc parts
                       @ (if u0 \<noteq> [] \<and> take 1 u0 \<noteq> ''/'' then ''/'' @ u0 else u0)
                else u0);
          u2 = (if url_scheme parts \<noteq> [] then url_scheme parts @ '':'' @ u1 else u1);
          u3 = (if url_query parts \<noteq> [] then u2 @ ''?'' @ url_query parts else u2)
      in if url_fragment parts \<noteq> [] then u3 @ ''#'' @ url_fragment parts else u3)"

text \<open>\<^verbatim>\<open>netloc.rpartition('@')\<close>: the user information, when there is an \<^verbatim>\<open>@\<close>.\<close>

definition userinfo :: "string \<Rightarrow> string option" where
  "userinfo nl =
     (if CHR ''@'' \<in> set nl
      then Some (rev (drop 1 (dropWhile (\<lambda>c. c \<noteq> CHR ''@'') (rev nl))))
      else None)"

definition hostinfo :: "string \<Rightarrow> string" where
  "hostinfo nl = rev (takeWhile (\<lambda>c. c \<noteq> CHR ''@'') (rev nl))"

definition py_password :: "url_parts \<Rightarrow> string option" where
  "py_password parts =
     (case userinfo (url_netloc parts) of
        None \<Rightarrow> None
      | Some ui \<Rightarrow> if CHR '':'' \<in> set ui then Some (snd (split_at CHR '':'' ui)) else None)"

definition py_hostname :: "url_parts \<Rightarrow> string option" where
  "py_hostname parts =
     (let h = fst (split_at CHR '':'' (hostinfo (url_netloc parts)))
      in if h = [] then None else Some (lower h))"

definition py_port :: "url_parts \<Rightarrow> nat option" where
  "py_port parts =
     (let p = snd (split_at CHR '':'' (hostinfo (url_netloc parts)))
      in if p \<noteq> [] \<and> list_all is_digit p
         then Some (foldl (\<lambda>n c. 10 * n + ((of_char c :: nat) - 48)) 0 p)
         else None)"

definition py_urllib :: urllib where
  "py_urllib =
     \<lparr> urlparse = py_urlparse, urlunparse = py_urlunparse, hostname = py_hostname,
       port = py_port, password = py_password \<rparr>"

subsection \<open>Evaluation inputs for the Git-backed registry\<close>

text \<open>
  A registry object for \<^verbatim>\<open>https://github.com/o/r\<close> cloned into \<^verbatim>\<open>/clone\<close>, without a token,
  with auto-install enabled; a world with an empty cache and an empty disk; and a client
  whose clone fails (no network).
\<close>

definition example_registry :: git_registry where
  "example_registry =
     \<lparr> repo_url = ''https://github.com/o/r'', path = [], validate = True, auto_install = True,
       options = default_clone_options, token = None, clone_url = ''https://github.com/o/r'',
       target_dir = [''clone''], clean_repo_url = ''https://github.com/o/r'' \<rparr>"

definition empty_disk :: mem where
  "empty_disk = \<lparr> mem_files = [], mem_links = [], mem_skills = [], mem_cloned = False \<rparr>"

definition empty_world :: "mem git_world" where
  "empty_world = \<lparr> cached_skills = [], effects = [], ext = empty_disk \<rparr>"

definition offline_os :: "mem os" where
  "offline_os = mem_os\<lparr>clone_from := (\<lambda>url p opts x. (Some ''fatal: unable to access'', x))\<rparr>"

definition accept_all :: "skill \<Rightarrow> bool" where
  "accept_all sk = True"

definition named :: "string \<Rightarrow> skill \<Rightarrow> bool" where
  "named n sk = (name sk = n)"

subsection \<open>Children that miss\<close>

text \<open>
  \<open>misses regs n w\<close> runs \<^verbatim>\<open>get(n)\<close> on the registries of \<open>regs\<close> in order, as long as
  each raises \<^verbatim>\<open>SkillNotFoundError\<close>: it is the world the last one leaves, or \<open>None\<close> when
  some registry of \<open>regs\<close> answers otherwise.
\<close>

fun misses :: "'w registry list \<Rightarrow> string \<Rightarrow> 'w \<Rightarrow> 'w option" where
  "misses [] n w = Some w"
| "misses (reg # regs) n w =
     (case get reg n w of
        (Inl (SkillNotFoundError msg), w') \<Rightarrow> misses regs n w'
      | (r, w') \<Rightarrow> None)"

subsection \<open>Recording the calls each child of a combined registry receives\<close>

text \<open>\<open>traced_all k regs\<close> traces the children under the numbers \<open>k\<close>, \<open>k + 1\<close>, ...\<close>

fun traced_all :: "nat \<Rightarrow> 'w registry list \<Rightarrow> ('w logged) registry list" where
  "traced_all k [] = []"
| "traced_all k (reg # regs) = traced k reg # traced_all (Suc k) regs"

text \<open>A world whose cache holds one skill, as the test suite injects it.\<close>

definition pdf_world :: "mem git_world" where
  "pdf_world =
     \<lparr> cached_skills = [mk_skill ''pdf'' ''PDF manipulation skill.'' ''PDF instructions.''],
       effects = [], ext = empty_disk \<rparr>"


text \<open>
  The constructor arguments for a repository URL that carries a personal access token
  as its user name, \<^verbatim>\<open>https://ghp_secret@github.com/o/r\<close>, with auto-install disabled.
\<close>

definition token_url_args :: git_args where
  "token_url_args =
     \<lparr> arg_repo_url = ''https://ghp_secret@github.com/o/r'', arg_target_dir = Some ''/clone'',
       arg_path = [], arg_token = None, arg_ssh_key_file = None, arg_clone_options = None,
       arg_validate = True, arg_auto_install = False \<rparr>"

text \<open>
  Three worlds for \<^verbatim>\<open>install\<close>. In the first the cache holds a skill named \<^verbatim>\<open>../escape\<close>
  whose source directory is \<^verbatim>\<open>/clone/escape\<close>; in the second a skill named \<^verbatim>\<open>a/../b\<close>
  whose source directory is \<^verbatim>\<open>/clone/ab\<close>. In the third the cache holds the skill
  \<^verbatim>\<open>pdf\<close> from \<^verbatim>\<open>/clone/pdf\<close>, and that directory holds a symbolic link \<^verbatim>\<open>escape.txt\<close> to
  \<^verbatim>\<open>/tmp/secret.txt\<close>.
\<close>

definition escape_world :: "mem git_world" where
  "escape_world =
     \<lparr> cached_skills = [(mk_skill ''../escape'' ''Escapes.'' ''body'')\<lparr>uri := ''/clone/escape''\<rparr>],
       effects = [],
       ext = \<lparr> mem_files = [[''clone'', ''escape'', ''SKILL.md'']], mem_links = [],
               mem_skills = [], mem_cloned = True \<rparr> \<rparr>"

definition inside_world :: "mem git_world" where
  "inside_world =
     \<lparr> cached_skills = [(mk_skill ''a/../b'' ''Stays inside.'' ''body'')\<lparr>uri := ''/clone/ab''\<rparr>],
       effects = [],
       ext = \<lparr> mem_files = [[''clone'', ''ab'', ''SKILL.md'']], mem_links = [],
               mem_skills = [], mem_cloned = True \<rparr> \<rparr>"

definition link_world :: "mem git_world" where
  "link_world =
     \<lparr> cached_skills = [(mk_skill ''pdf'' ''PDF.'' ''body'')\<lparr>uri := ''/clone/pdf''\<rparr>],
       effects = [],
       ext = \<lparr> mem_files = [[''clone'', ''pdf'', ''SKILL.md''], [''tmp'', ''secret.txt'']],
               mem_links = [([''clone'', ''pdf'', ''escape.txt''], [''tmp'', ''secret.txt''])],
               mem_skills = [], mem_cloned = True \<rparr> \<rparr>"

section \<open>Verified properties\<close>

subsection \<open>Helper facts about the prefixed view\<close>

lemma map_add_prefix_empty: "map (add_prefix []) xs = xs"
  by (induction xs) (simp_all add: add_prefix_def)

lemma add_prefix_empty: "add_prefix [] sk = sk"
  by (simp add: add_prefix_def)

lemma strip_prefix_empty: "strip_prefix [] n = n"
  by (simp add: strip_prefix_def startswith_def)

lemma strip_prefix_append: "strip_prefix px (px @ n) = n"
  by (simp add: strip_prefix_def startswith_def)

lemma startswith_append: "startswith (px @ n) px"
  by (simp add: startswith_def)

lemma prefixed_empty_identity: "PrefixedRegistry R [] = R"
proof -
  have s: "prefixed_search R [] = search R"
    by (intro ext) (auto simp: prefixed_search_def map_add_prefix_empty bind_action_def
        return_action_def split: prod.splits sum.splits)
  have g: "prefixed_get R [] = get R"
    by (intro ext) (auto simp: prefixed_get_def add_prefix_empty strip_prefix_empty startswith_def
        bind_action_def return_action_def split: prod.splits sum.splits)
  have i: "prefixed_install R [] = install R"
    by (intro ext) (simp add: prefixed_install_def strip_prefix_empty)
  have u: "prefixed_update R [] = update R"
    by (intro ext) (simp add: prefixed_update_def strip_prefix_empty)
  have k: "prefixed_get_skills R [] = get_skills R"
    by (intro ext) (auto simp: prefixed_get_skills_def map_add_prefix_empty bind_action_def
        return_action_def split: prod.splits sum.splits)
  show ?thesis
    by (simp add: PrefixedRegistry_def s g i u k)
qed

text \<open>
  \<^verbatim>\<open>get\<close> checks the prefix before anything else: a name without the prefix raises
  \<^verbatim>\<open>SkillNotFoundError\<close> and the wrapped registry receives no call (the log and the world
  are unchanged).
\<close>

lemma prefixed_get_requires_prefix:
  "\<not> startswith n px \<Longrightarrow>
     prefixed_get (traced i R) px n (w, log) = (Inl (prefixed_not_found px n), (w, log))"
  by (simp add: prefixed_get_def raise_def)

text \<open>
  \<^verbatim>\<open>install\<close> and \<^verbatim>\<open>update\<close> have no such check: \<^verbatim>\<open>_strip_prefix\<close> returns a name
  without the prefix as it is, and the call goes to the wrapped registry under that name.
\<close>

lemma prefixed_install_passes_bare_name:
  "\<not> startswith n px \<Longrightarrow> prefixed_install R px n t = install R n t"
  by (simp add: prefixed_install_def strip_prefix_def)

lemma prefixed_update_passes_bare_name:
  "\<not> startswith n px \<Longrightarrow> prefixed_update R px n t = update R n t"
  by (simp add: prefixed_update_def strip_prefix_def)

subsection \<open>C1: a name without the prefix\<close>

text \<open>
  C1. The claim: with a non-empty prefix, \<^verbatim>\<open>get\<close>, \<^verbatim>\<open>install\<close> and \<^verbatim>\<open>update\<close> each raise
  \<^verbatim>\<open>SkillNotFoundError\<close> for a name that does not start with the prefix, without
  delegating. \<^verbatim>\<open>get\<close> does (\<open>prefixed_get_requires_prefix\<close>); \<^verbatim>\<open>install\<close> and
  \<^verbatim>\<open>update\<close> do not. On the registry of the test suite holding \<^verbatim>\<open>pdf\<close>, viewed under the
  prefix \<^verbatim>\<open>acme-\<close>, \<^verbatim>\<open>install('pdf', '/tmp/t')\<close> and \<^verbatim>\<open>update('pdf', '/tmp/t')\<close> raise
  nothing: the bare name is handed to the wrapped registry, which serves it.
\<close>

theorem prefixed_install_update_accept_bare_name:
  "\<not> startswith ''pdf'' ''acme-''
   \<and> prefixed_install (traced 0 (StubRegistry [mk_skill ''pdf'' ''PDF manipulation skill.'' ''PDF instructions.'']))
        ''acme-'' ''pdf'' ''/tmp/t'' ((), [])
      = (Inr ''/tmp/t/pdf'', ((), [(0, CallInstall ''pdf'' ''/tmp/t'')]))
   \<and> prefixed_update (traced 0 (StubRegistry [mk_skill ''pdf'' ''PDF manipulation skill.'' ''PDF instructions.'']))
        ''acme-'' ''pdf'' ''/tmp/t'' ((), [])
      = (Inr ''/tmp/t/pdf'', ((), [(0, CallUpdate ''pdf'' ''/tmp/t'')]))"
  by (simp add: prefixed_install_def prefixed_update_def traced_def record_call_def StubRegistry_def
      stub_install_def stub_get_def bind_action_def return_action_def raise_def strip_prefix_def
      startswith_def mk_skill_def path_str_def path_join_def parse_path_def)

subsection \<open>C7: what the prefixed \<^verbatim>\<open>get\<close> returns\<close>

text \<open>
  C7, as the code has it. When \<^verbatim>\<open>R.get(n)\<close> succeeds with a skill \<open>sk\<close>, the prefixed view's
  \<^verbatim>\<open>get(px + n)\<close> returns \<open>sk\<close> with its name replaced by \<open>px\<close> followed by the name of
  \<open>sk\<close> (which is \<open>px + n\<close> whenever \<open>R\<close> returned a skill named \<open>n\<close>), every other field
  and the world being those of \<^verbatim>\<open>R.get(n)\<close>; and with the empty prefix the view is the
  wrapped registry itself, on every operation.
\<close>

theorem prefixed_get_adds_prefix:
  "(get R n w = (Inr sk, w') \<longrightarrow>
      prefixed_get R px (px @ n) w = (Inr (sk\<lparr>name := px @ name sk\<rparr>), w'))
   \<and> PrefixedRegistry R [] = R"
  by (simp add: prefixed_empty_identity prefixed_get_def startswith_append strip_prefix_append
      bind_action_def return_action_def add_prefix_def)

theorem prefixed_get_adds_prefix_witness:
  "get (StubRegistry [mk_skill ''pdf'' ''PDF'' ''body'']) ''pdf'' ()
     = (Inr (mk_skill ''pdf'' ''PDF'' ''body''), ())
   \<and> prefixed_get (StubRegistry [mk_skill ''pdf'' ''PDF'' ''body'']) ''x-'' ''x-pdf'' ()
     = (Inr ((mk_skill ''pdf'' ''PDF'' ''body'')\<lparr>name := ''x-pdf''\<rparr>), ())"
proof -
  have h: "get (StubRegistry [mk_skill ''pdf'' ''PDF'' ''body'']) ''pdf'' ()
             = (Inr (mk_skill ''pdf'' ''PDF'' ''body''), ())"
    by (simp add: StubRegistry_def stub_get_def return_action_def mk_skill_def)
  from prefixed_get_adds_prefix [of "StubRegistry [mk_skill ''pdf'' ''PDF'' ''body'']" "''pdf''"
      "()" "mk_skill ''pdf'' ''PDF'' ''body''" "()" "''x-''"] h
  show ?thesis by (simp add: mk_skill_def)
qed

text \<open>
  The claim as stated (the name becomes \<open>px + n\<close> for every registry) fails when the
  wrapped registry answers under another name, as a renamed view does: under the map
  \<^verbatim>\<open>{'doc': 'pdf'}\<close>, \<^verbatim>\<open>get('pdf')\<close> succeeds with a skill named \<^verbatim>\<open>doc\<close>, and the prefixed
  \<^verbatim>\<open>get('x-pdf')\<close> returns the name \<^verbatim>\<open>x-doc\<close>.
\<close>

theorem prefixed_get_name_counterexample:
  "get (RenamedRegistry (StubRegistry [mk_skill ''pdf'' ''PDF'' ''body'']) [(''doc'', ''pdf'')]) ''pdf'' ()
     = (Inr ((mk_skill ''pdf'' ''PDF'' ''body'')\<lparr>name := ''doc''\<rparr>), ())
   \<and> prefixed_get (RenamedRegistry (StubRegistry [mk_skill ''pdf'' ''PDF'' ''body'']) [(''doc'', ''pdf'')])
        ''x-'' (''x-'' @ ''pdf'') ()
     = (Inr ((mk_skill ''pdf'' ''PDF'' ''body'')\<lparr>name := ''x-doc''\<rparr>), ())
   \<and> ''x-doc'' \<noteq> ''x-'' @ ''pdf''"
  by (simp add: RenamedRegistry_def renamed_get_def StubRegistry_def stub_get_def return_action_def
      bind_action_def mk_skill_def to_original_name_def to_new_name_def dict_get_def reverse_map_def
      prefixed_get_def startswith_def strip_prefix_def add_prefix_def)

subsection \<open>Helper facts about the renamed view\<close>

lemma map_of_dict_set: "map_of (dict_set k v d) = (map_of d)(k \<mapsto> v)"
  by (induction d) (auto simp: fun_eq_iff)

lemma map_of_reverse_fold:
  "map_of (fold (\<lambda>(k, v) acc. dict_set v k acc) m acc)
     = map_of acc ++ map_of (map (\<lambda>(k, v). (v, k)) (rev m))"
proof (induction m arbitrary: acc)
  case Nil
  then show ?case by simp
next
  case (Cons a m)
  obtain k v where a: "a = (k, v)" by (cases a)
  have "map_of (dict_set v k acc) ++ map_of (map (\<lambda>(k, v). (v, k)) (rev m))
          = map_of acc ++ (map_of [(v, k)] ++ map_of (map (\<lambda>(k, v). (v, k)) (rev m)))"
    by (auto simp: map_of_dict_set fun_eq_iff map_add_def split: option.splits)
  then show ?case
    using Cons.IH [of "dict_set v k acc"] by (simp add: a)
qed

lemma dict_get_reverse_map:
  "dict_get (reverse_map m) x = map_of (map (\<lambda>(k, v). (v, k)) (rev m)) x"
  by (simp add: dict_get_def reverse_map_def map_of_reverse_fold)

lemma reverse_map_absent:
  "x \<notin> snd ` set m \<Longrightarrow> dict_get (reverse_map m) x = None"
  by (force simp: dict_get_reverse_map map_of_eq_None_iff image_iff)

lemma reverse_map_present:
  assumes "distinct (map snd m)" and "(k, v) \<in> set m"
  shows "dict_get (reverse_map m) v = Some k"
proof -
  have "map fst (map (\<lambda>(k, v). (v, k)) (rev m)) = rev (map snd m)"
    by (induction m) auto
  with assms(1) have d: "distinct (map fst (map (\<lambda>(k, v). (v, k)) (rev m)))"
    by simp
  have "(v, k) \<in> set (map (\<lambda>(k, v). (v, k)) (rev m))"
    using assms(2) by force
  with d show ?thesis
    by (simp add: dict_get_reverse_map)
qed

lemma to_new_name_absent: "name sk \<notin> snd ` set m \<Longrightarrow> to_new_name m sk = sk"
  by (simp add: to_new_name_def reverse_map_absent)

lemma to_new_name_present:
  "distinct (map snd m) \<Longrightarrow> (new, name sk) \<in> set m \<Longrightarrow> new \<noteq> [] \<Longrightarrow>
     to_new_name m sk = sk\<lparr>name := new\<rparr>"
  by (simp add: to_new_name_def reverse_map_present)

subsection \<open>C3: what the renamed \<^verbatim>\<open>get\<close> returns\<close>

text \<open>
  C3, as the code has it. \<^verbatim>\<open>get(n)\<close> fetches the skill under \<^verbatim>\<open>name_map.get(n, n)\<close> and
  renames the skill it got by the reverse map. So: when \<open>new\<close> is a non-empty key of \<open>m\<close>
  with original \<open>orig\<close>, no two keys of \<open>m\<close> share an original, and the wrapped registry
  answers \<^verbatim>\<open>get(orig)\<close> with a skill named \<open>orig\<close>, then \<^verbatim>\<open>get(new)\<close> returns that skill
  with its name replaced by \<open>new\<close>; and when \<open>n\<close> is not a key of \<open>m\<close>, the name is
  handed to the wrapped registry unchanged, and a skill whose name is not an original of
  \<open>m\<close> comes back unchanged (so for \<open>n\<close> neither a key nor a value of \<open>m\<close>, answered
  by a skill named \<open>n\<close>, the result carries exactly \<open>n\<close>).
\<close>

theorem renamed_get_substitutes:
  "(dict_get m new = Some orig \<and> distinct (map snd m) \<and> new \<noteq> []
      \<and> get R orig w = (Inr sk, w') \<and> name sk = orig
      \<longrightarrow> renamed_get R m new w = (Inr (sk\<lparr>name := new\<rparr>), w'))
   \<and> (dict_get m n = None \<and> get R n w = (Inr sk, w') \<and> name sk \<notin> snd ` set m
      \<longrightarrow> to_original_name m n = n \<and> renamed_get R m n w = (Inr sk, w'))"
proof (intro conjI impI)
  assume h: "dict_get m new = Some orig \<and> distinct (map snd m) \<and> new \<noteq> []
      \<and> get R orig w = (Inr sk, w') \<and> name sk = orig"
  then have "(new, name sk) \<in> set m"
    by (auto simp: dict_get_def dest: map_of_SomeD)
  with h have "to_new_name m sk = sk\<lparr>name := new\<rparr>"
    by (simp add: to_new_name_present)
  with h show "renamed_get R m new w = (Inr (sk\<lparr>name := new\<rparr>), w')"
    by (simp add: renamed_get_def to_original_name_def bind_action_def return_action_def)
next
  assume h: "dict_get m n = None \<and> get R n w = (Inr sk, w') \<and> name sk \<notin> snd ` set m"
  then show "to_original_name m n = n"
    by (simp add: to_original_name_def)
  from h show "renamed_get R m n w = (Inr sk, w')"
    by (simp add: renamed_get_def to_original_name_def bind_action_def return_action_def
        to_new_name_absent)
qed

theorem renamed_get_substitutes_witness:
  "renamed_get (StubRegistry [mk_skill ''pdf'' ''PDF'' ''body'', mk_skill ''xlsx'' ''Excel'' ''sheet''])
      [(''doc-tool'', ''pdf'')] ''doc-tool'' ()
     = (Inr ((mk_skill ''pdf'' ''PDF'' ''body'')\<lparr>name := ''doc-tool''\<rparr>), ())
   \<and> renamed_get (StubRegistry [mk_skill ''pdf'' ''PDF'' ''body'', mk_skill ''xlsx'' ''Excel'' ''sheet''])
      [(''doc-tool'', ''pdf'')] ''xlsx'' ()
     = (Inr (mk_skill ''xlsx'' ''Excel'' ''sheet''), ())"
proof -
  let ?R = "StubRegistry [mk_skill ''pdf'' ''PDF'' ''body'', mk_skill ''xlsx'' ''Excel'' ''sheet''] :: unit registry"
  let ?m = "[(''doc-tool'', ''pdf'')]"
  have a: "dict_get ?m ''doc-tool'' = Some ''pdf'' \<and> distinct (map snd ?m) \<and> ''doc-tool'' \<noteq> []
      \<and> get ?R ''pdf'' () = (Inr (mk_skill ''pdf'' ''PDF'' ''body''), ())
      \<and> name (mk_skill ''pdf'' ''PDF'' ''body'') = ''pdf''"
    by (simp add: dict_get_def StubRegistry_def stub_get_def return_action_def mk_skill_def)
  have b: "dict_get ?m ''xlsx'' = None
      \<and> get ?R ''xlsx'' () = (Inr (mk_skill ''xlsx'' ''Excel'' ''sheet''), ())
      \<and> name (mk_skill ''xlsx'' ''Excel'' ''sheet'') \<notin> snd ` set ?m"
    by (simp add: dict_get_def StubRegistry_def stub_get_def return_action_def mk_skill_def)
  from renamed_get_substitutes [of ?m "''doc-tool''" "''pdf''" ?R "()" "mk_skill ''pdf'' ''PDF'' ''body''" "()" "''xlsx''"] a
  have 1: "renamed_get ?R ?m ''doc-tool'' ()
     = (Inr ((mk_skill ''pdf'' ''PDF'' ''body'')\<lparr>name := ''doc-tool''\<rparr>), ())"
    by blast
  from renamed_get_substitutes [of ?m "''doc-tool''" "''pdf''" ?R "()" "mk_skill ''xlsx'' ''Excel'' ''sheet''" "()" "''xlsx''"] b
  have 2: "renamed_get ?R ?m ''xlsx'' () = (Inr (mk_skill ''xlsx'' ''Excel'' ''sheet''), ())"
    by blast
  from 1 2 show ?thesis by simp
qed

text \<open>
  The claim as stated (for any name that is not a key of \<open>m\<close>, the returned skill
  carries the requested name) fails for a name that is a value of \<open>m\<close>: under
  \<^verbatim>\<open>{'doc-tool': 'pdf'}\<close>, \<^verbatim>\<open>pdf\<close> is not a key, \<^verbatim>\<open>get('pdf')\<close> succeeds, and the skill it
  returns is named \<^verbatim>\<open>doc-tool\<close>.
\<close>

theorem renamed_get_value_name_counterexample:
  "dict_get [(''doc-tool'', ''pdf'')] ''pdf'' = None
   \<and> renamed_get (StubRegistry [mk_skill ''pdf'' ''PDF'' ''body'']) [(''doc-tool'', ''pdf'')] ''pdf'' ()
     = (Inr ((mk_skill ''pdf'' ''PDF'' ''body'')\<lparr>name := ''doc-tool''\<rparr>), ())
   \<and> ''doc-tool'' \<noteq> ''pdf''"
  by (simp add: renamed_get_def StubRegistry_def stub_get_def return_action_def
      bind_action_def mk_skill_def to_original_name_def to_new_name_def dict_get_def reverse_map_def)

subsection \<open>Helper facts about the filtered view\<close>

lemma filtered_get_success_iff:
  "filtered_get R p n w = (Inr sk, w') \<longleftrightarrow> get R n w = (Inr sk, w') \<and> p sk"
  by (auto simp: filtered_get_def bind_action_def return_action_def raise_def
      split: prod.splits sum.splits if_splits)

lemma filtered_get_hidden:
  "get R n w = (Inr sk, w') \<Longrightarrow> \<not> p sk \<Longrightarrow>
     filtered_get R p n w = (Inl (filtered_not_found n), w')"
  by (simp add: filtered_get_def bind_action_def raise_def)

lemma filtered_get_propagates:
  "get R n w = (Inl e, w') \<Longrightarrow> filtered_get R p n w = (Inl e, w')"
  by (simp add: filtered_get_def bind_action_def)

lemma traced_get:
  "get (traced i R) n (w, log) = (fst (get R n w), (snd (get R n w), log @ [(i, CallGet n)]))"
  by (simp add: traced_def record_call_def split: prod.splits)

lemma filtered_install_hidden:
  assumes "get R n w = (Inr sk, w')" and "\<not> p sk"
  shows "filtered_install (traced i R) p n t (w, log)
           = (Inl (filtered_not_found n), (w', log @ [(i, CallGet n)]))"
proof -
  have "get (traced i R) n (w, log) = (Inr sk, (w', log @ [(i, CallGet n)]))"
    using assms(1) by (simp add: traced_get)
  then have "filtered_get (traced i R) p n (w, log)
               = (Inl (filtered_not_found n), (w', log @ [(i, CallGet n)]))"
    using assms(2) by (rule filtered_get_hidden)
  then show ?thesis
    by (simp add: filtered_install_def bind_action_def)
qed

lemma filtered_update_hidden:
  assumes "get R n w = (Inr sk, w')" and "\<not> p sk"
  shows "filtered_update (traced i R) p n t (w, log)
           = (Inl (filtered_not_found n), (w', log @ [(i, CallGet n)]))"
proof -
  have "get (traced i R) n (w, log) = (Inr sk, (w', log @ [(i, CallGet n)]))"
    using assms(1) by (simp add: traced_get)
  then have "filtered_get (traced i R) p n (w, log)
               = (Inl (filtered_not_found n), (w', log @ [(i, CallGet n)]))"
    using assms(2) by (rule filtered_get_hidden)
  then show ?thesis
    by (simp add: filtered_update_def bind_action_def)
qed

subsection \<open>C4: the filtered \<^verbatim>\<open>get\<close>, \<^verbatim>\<open>install\<close> and \<^verbatim>\<open>update\<close>\<close>

text \<open>
  C4, as the code has it. The filtered \<^verbatim>\<open>get(n)\<close> succeeds with a skill exactly when
  \<^verbatim>\<open>R.get(n)\<close> succeeds with that skill and the predicate holds of it. When \<^verbatim>\<open>R.get(n)\<close>
  succeeds with a skill the predicate rejects, \<^verbatim>\<open>get\<close>, \<^verbatim>\<open>install\<close> and \<^verbatim>\<open>update\<close> raise
  \<^verbatim>\<open>SkillNotFoundError\<close>, and the only call the wrapped registry receives from
  \<^verbatim>\<open>install\<close> and \<^verbatim>\<open>update\<close> is that \<^verbatim>\<open>get\<close>. When \<^verbatim>\<open>R.get(n)\<close> itself raises, the
  filtered \<^verbatim>\<open>get\<close> raises the same exception (\<^verbatim>\<open>SkillNotFoundError\<close> for a miss, any
  other error unchanged).
\<close>

theorem filtered_get_install_update:
  "(filtered_get R p n w = (Inr sk, w') \<longleftrightarrow> get R n w = (Inr sk, w') \<and> p sk)
   \<and> (get R n w = (Inr sk, w') \<and> \<not> p sk \<longrightarrow>
        filtered_get R p n w = (Inl (filtered_not_found n), w')
        \<and> filtered_install (traced i R) p n t (w, log)
            = (Inl (filtered_not_found n), (w', log @ [(i, CallGet n)]))
        \<and> filtered_update (traced i R) p n t (w, log)
            = (Inl (filtered_not_found n), (w', log @ [(i, CallGet n)])))
   \<and> (get R n w = (Inl e, w') \<longrightarrow> filtered_get R p n w = (Inl e, w'))"
  using filtered_get_success_iff [of R p n w sk w'] filtered_get_hidden [of R n w sk w' p]
    filtered_install_hidden [of R n w sk w' p i t log]
    filtered_update_hidden [of R n w sk w' p i t log]
    filtered_get_propagates [of R n w e w' p]
  by blast


theorem filtered_get_install_update_witness:
  "filtered_get (StubRegistry [mk_skill ''pdf'' ''PDF'' ''body'', mk_skill ''xlsx'' ''Excel'' ''sheet''])
      (named ''pdf'') ''pdf'' () = (Inr (mk_skill ''pdf'' ''PDF'' ''body''), ())
   \<and> filtered_get (StubRegistry [mk_skill ''pdf'' ''PDF'' ''body'', mk_skill ''xlsx'' ''Excel'' ''sheet''])
      (named ''pdf'') ''xlsx'' () = (Inl (filtered_not_found ''xlsx''), ())
   \<and> filtered_install
        (traced 0 (StubRegistry [mk_skill ''pdf'' ''PDF'' ''body'', mk_skill ''xlsx'' ''Excel'' ''sheet'']))
        (named ''pdf'') ''xlsx'' ''/tmp/t'' ((), [])
      = (Inl (filtered_not_found ''xlsx''), ((), [(0, CallGet ''xlsx'')]))
   \<and> filtered_update
        (traced 0 (StubRegistry [mk_skill ''pdf'' ''PDF'' ''body'', mk_skill ''xlsx'' ''Excel'' ''sheet'']))
        (named ''pdf'') ''xlsx'' ''/tmp/t'' ((), [])
      = (Inl (filtered_not_found ''xlsx''), ((), [(0, CallGet ''xlsx'')]))
   \<and> filtered_get (StubRegistry [mk_skill ''pdf'' ''PDF'' ''body'', mk_skill ''xlsx'' ''Excel'' ''sheet''])
      (named ''pdf'') ''docx'' () = (Inl (stub_not_found ''docx''), ())"
proof -
  let ?R = "StubRegistry [mk_skill ''pdf'' ''PDF'' ''body'', mk_skill ''xlsx'' ''Excel'' ''sheet''] :: unit registry"
  have a: "get ?R ''pdf'' () = (Inr (mk_skill ''pdf'' ''PDF'' ''body''), ())
           \<and> named ''pdf'' (mk_skill ''pdf'' ''PDF'' ''body'')"
    by (simp add: StubRegistry_def stub_get_def return_action_def mk_skill_def named_def)
  have b: "get ?R ''xlsx'' () = (Inr (mk_skill ''xlsx'' ''Excel'' ''sheet''), ())
           \<and> \<not> named ''pdf'' (mk_skill ''xlsx'' ''Excel'' ''sheet'')"
    by (simp add: StubRegistry_def stub_get_def return_action_def mk_skill_def named_def)
  have c: "get ?R ''docx'' () = (Inl (stub_not_found ''docx''), ())"
    by (simp add: StubRegistry_def stub_get_def raise_def mk_skill_def)
  from a filtered_get_install_update [of ?R "named ''pdf''" "''pdf''" "()"
      "mk_skill ''pdf'' ''PDF'' ''body''" "()" 0 "''/tmp/t''" "[]" "stub_not_found ''docx''"]
  have 1: "filtered_get ?R (named ''pdf'') ''pdf'' () = (Inr (mk_skill ''pdf'' ''PDF'' ''body''), ())"
    by blast
  from b filtered_get_install_update [of ?R "named ''pdf''" "''xlsx''" "()"
      "mk_skill ''xlsx'' ''Excel'' ''sheet''" "()" 0 "''/tmp/t''" "[]" "stub_not_found ''docx''"]
  have 2: "filtered_get ?R (named ''pdf'') ''xlsx'' () = (Inl (filtered_not_found ''xlsx''), ())
     \<and> filtered_install (traced 0 ?R) (named ''pdf'') ''xlsx'' ''/tmp/t'' ((), [])
          = (Inl (filtered_not_found ''xlsx''), ((), [] @ [(0, CallGet ''xlsx'')]))
     \<and> filtered_update (traced 0 ?R) (named ''pdf'') ''xlsx'' ''/tmp/t'' ((), [])
          = (Inl (filtered_not_found ''xlsx''), ((), [] @ [(0, CallGet ''xlsx'')]))"
    by blast
  from c filtered_get_install_update [of ?R "named ''pdf''" "''docx''" "()"
      "mk_skill ''pdf'' ''PDF'' ''body''" "()" 0 "''/tmp/t''" "[]" "stub_not_found ''docx''"]
  have 3: "filtered_get ?R (named ''pdf'') ''docx'' () = (Inl (stub_not_found ''docx''), ())"
    by blast
  from 1 2 3 show ?thesis by simp
qed

text \<open>
  The claim as stated (in every other case the filtered \<^verbatim>\<open>get\<close> raises
  \<^verbatim>\<open>SkillNotFoundError\<close>) fails when the wrapped registry raises another error: a Git
  registry with an empty cache, auto-install enabled and no network raises
  \<^verbatim>\<open>SkillRegistryError\<close> from \<^verbatim>\<open>get\<close>, and the filtered view passes it on.
\<close>

theorem filtered_get_other_error_counterexample:
  "get (GitSkillsRegistry offline_os example_registry) ''pdf'' empty_world
     = (Inl (SkillRegistryError (''Failed to clone repository '' @ apostrophe
              @ ''https://github.com/o/r'' @ apostrophe @ '': fatal: unable to access'')),
        empty_world\<lparr>effects := [Mkdir [''clone''], Clone]\<rparr>)
   \<and> filtered_get (GitSkillsRegistry offline_os example_registry) accept_all ''pdf'' empty_world
     = (Inl (SkillRegistryError (''Failed to clone repository '' @ apostrophe
              @ ''https://github.com/o/r'' @ apostrophe @ '': fatal: unable to access'')),
        empty_world\<lparr>effects := [Mkdir [''clone''], Clone]\<rparr>)"
  by (simp add: filtered_get_def GitSkillsRegistry_def git_get_def git_get_skills_def
      ensure_skills_loaded_def ensure_cloned_def is_cloned_def clone_def perform_def
      bind_action_def return_action_def offline_os_def mem_os_def example_registry_def
      empty_world_def empty_disk_def git_error_def sanitize_error_message_def repr_str_def
      repr_char_def apostrophe_def startswith_def default_clone_options_def Let_def)

subsection \<open>Helper facts about the combined \<^verbatim>\<open>get\<close>\<close>

lemma combined_get_from_first_success:
  "misses pre n w = Some w1 \<Longrightarrow> get reg n w1 = (Inr sk, w2) \<Longrightarrow>
     combined_get_from k (pre @ reg # post) n w = (Inr sk, w2)"
proof (induction pre arbitrary: w)
  case Nil
  then show ?case by simp
next
  case (Cons r pre)
  then show ?case
    by (auto split: prod.splits sum.splits error.splits)
qed

lemma combined_get_from_all_miss:
  "misses regs n w = Some w1 \<Longrightarrow>
     combined_get_from k regs n w = (Inl (combined_not_found k n), w1)"
proof (induction regs arbitrary: w)
  case Nil
  then show ?case by (simp add: raise_def)
next
  case (Cons r regs)
  then show ?case
    by (auto split: prod.splits sum.splits error.splits)
qed

subsection \<open>C5: the combined \<^verbatim>\<open>get\<close>\<close>

text \<open>
  C5. \<^verbatim>\<open>get(n)\<close> of a combined registry tries the children in order and returns the first
  child's success: when the children before \<open>reg\<close> each raise \<^verbatim>\<open>SkillNotFoundError\<close> and
  \<open>reg\<close> succeeds, the result is the skill of \<open>reg\<close>, whatever the later children hold
  (so of two children that both hold \<open>n\<close>, the first one's version is returned, on every
  call). When every child raises \<^verbatim>\<open>SkillNotFoundError\<close>, the combined registry raises
  \<^verbatim>\<open>SkillNotFoundError\<close> with a message that names the number of registries.
\<close>

theorem combined_get_first_success:
  "(misses pre n w = Some w1 \<and> get reg n w1 = (Inr sk, w2) \<longrightarrow>
      combined_get (pre @ reg # post) n w = (Inr sk, w2))
   \<and> (misses regs n w = Some w1 \<longrightarrow>
      combined_get regs n w
        = (Inl (SkillNotFoundError (''Skill '' @ apostrophe @ n @ apostrophe
             @ '' not found in any of the '' @ str_of_nat (length regs)
             @ '' combined registries.'')), w1))"
  using combined_get_from_first_success [of pre n w w1 reg sk w2 "length (pre @ reg # post)" post]
    combined_get_from_all_miss [of regs n w w1 "length regs"]
  by (simp add: combined_get_def combined_not_found_def)

theorem combined_get_first_success_witness:
  "combined_get [StubRegistry [mk_skill ''xlsx'' ''Excel'' ''sheet''],
                 StubRegistry [mk_skill ''pdf'' ''first'' ''a''],
                 StubRegistry [mk_skill ''pdf'' ''second'' ''b'']] ''pdf'' ()
     = (Inr (mk_skill ''pdf'' ''first'' ''a''), ())
   \<and> combined_get [StubRegistry [mk_skill ''pdf'' ''first'' ''a''],
                   StubRegistry [mk_skill ''pdf'' ''second'' ''b'']] ''docx'' ()
     = (Inl (SkillNotFoundError (''Skill '' @ apostrophe @ ''docx'' @ apostrophe
             @ '' not found in any of the 2 combined registries.'')), ())"
proof -
  let ?X = "StubRegistry [mk_skill ''xlsx'' ''Excel'' ''sheet''] :: unit registry"
  let ?A = "StubRegistry [mk_skill ''pdf'' ''first'' ''a''] :: unit registry"
  let ?B = "StubRegistry [mk_skill ''pdf'' ''second'' ''b''] :: unit registry"
  have a: "misses [?X] ''pdf'' () = Some ()
           \<and> get ?A ''pdf'' () = (Inr (mk_skill ''pdf'' ''first'' ''a''), ())"
    by (simp add: StubRegistry_def stub_get_def return_action_def raise_def mk_skill_def
        stub_not_found_def)
  have b: "misses [?A, ?B] ''docx'' () = Some ()"
    by (simp add: StubRegistry_def stub_get_def return_action_def raise_def mk_skill_def
        stub_not_found_def)
  from a combined_get_first_success [of "[?X]" "''pdf''" "()" "()" ?A
      "mk_skill ''pdf'' ''first'' ''a''" "()" "[?B]" "[?A, ?B]"]
  have 1: "combined_get ([?X] @ ?A # [?B]) ''pdf'' () = (Inr (mk_skill ''pdf'' ''first'' ''a''), ())"
    by blast
  from b combined_get_first_success [of "[?A, ?B]" "''docx''" "()" "()" ?A
      "mk_skill ''pdf'' ''first'' ''a''" "()" "[?B]" "[?A, ?B]"]
  have 2: "combined_get [?A, ?B] ''docx'' ()
     = (Inl (SkillNotFoundError (''Skill '' @ apostrophe @ ''docx'' @ apostrophe
             @ '' not found in any of the '' @ str_of_nat (length [?A, ?B])
             @ '' combined registries.'')), ())"
    by blast
  have 3: "str_of_nat (length [?A, ?B]) = ''2''"
    by code_simp
  from 1 2 3 show ?thesis by simp
qed

subsection \<open>Helper facts about the combined \<^verbatim>\<open>search\<close>\<close>

lemma gather_world: "snd (gather (m # ms) w) = snd (gather ms (snd (m w)))"
  by (simp split: prod.splits sum.splits)

lemma traced_search_world:
  "snd (search (traced k reg) q limit (w, log))
     = (snd (search reg q limit w), log @ [(k, CallSearch q limit)])"
  by (simp add: traced_def record_call_def split: prod.splits)

lemma gather_traced_log:
  "snd (snd (gather (map (\<lambda>reg. search reg q limit) (traced_all k regs)) (w, log)))
     = log @ map (\<lambda>i. (i, CallSearch q limit)) [k..<k + length regs]"
proof (induction regs arbitrary: k w log)
  case Nil
  then show ?case by simp
next
  case (Cons reg regs)
  have "[k..<k + length (reg # regs)] = k # [Suc k..<Suc k + length regs]"
    by (subst upt_rec) simp
  then show ?case
    using Cons.IH [of "Suc k" "snd (search reg q limit w)" "log @ [(k, CallSearch q limit)]"]
    by (simp only: traced_all.simps list.map gather_world traced_search_world) simp
qed

lemma combined_search_world:
  "snd (combined_search regs q limit w) = snd (gather (map (\<lambda>reg. search reg q limit) regs) w)"
  by (simp add: combined_search_def bind_action_def return_action_def split: prod.splits sum.splits)

lemma combined_search_same_limit:
  "snd (snd (combined_search (traced_all k regs) q limit (w, log)))
     = log @ map (\<lambda>i. (i, CallSearch q limit)) [k..<k + length regs]"
  by (simp add: combined_search_world gather_traced_log)

subsection \<open>Helper facts about the merging functions\<close>

text \<open>
  For a limit of at least one the merge of \<^verbatim>\<open>search\<close> returns at most \<open>limit\<close> skills;
  the merge of \<^verbatim>\<open>get_skills\<close> keeps the first skill of each name, so a registry listed
  twice contributes what it contributes once.
\<close>

lemma merge_results_length:
  "int (length merged) < limit \<Longrightarrow> merge_results limit rs seen merged = (stop, seen', merged') \<Longrightarrow>
     int (length merged') \<le> limit \<and> (\<not> stop \<longrightarrow> int (length merged') < limit)"
proof (induction rs arbitrary: seen merged)
  case Nil
  then show ?case by auto
next
  case (Cons sk rs)
  show ?case
  proof (cases "name sk \<in> seen")
    case True
    with Cons.prems have "merge_results limit rs seen merged = (stop, seen', merged')"
      by (simp add: Let_def)
    with Cons.IH Cons.prems(1) show ?thesis by blast
  next
    case False
    show ?thesis
    proof (cases "limit \<le> int (length (merged @ [sk]))")
      case True
      with False Cons.prems show ?thesis by (auto simp: Let_def)
    next
      case stay: False
      with False Cons.prems have
        "merge_results limit rs (insert (name sk) seen) (merged @ [sk]) = (stop, seen', merged')"
        by (simp add: Let_def)
      moreover from stay have "int (length (merged @ [sk])) < limit" by simp
      ultimately show ?thesis using Cons.IH by blast
    qed
  qed
qed

lemma merge_all_length:
  "int (length merged) < limit \<Longrightarrow> int (length (merge_all limit all_results seen merged)) \<le> limit"
proof (induction all_results arbitrary: seen merged)
  case Nil
  then show ?case by simp
next
  case (Cons rs all_results)
  obtain stop seen' merged' where m: "merge_results limit rs seen merged = (stop, seen', merged')"
    by (cases "merge_results limit rs seen merged") auto
  from merge_results_length [OF Cons.prems m]
  have b: "int (length merged') \<le> limit" and c: "\<not> stop \<longrightarrow> int (length merged') < limit"
    by blast+
  show ?case
  proof (cases stop)
    case True
    with m b show ?thesis by simp
  next
    case False
    with c have "int (length merged') < limit" by simp
    from Cons.IH [OF this] m False show ?thesis by simp
  qed
qed

lemma combined_search_length:
  "1 \<le> limit \<Longrightarrow> combined_search regs q limit w = (Inr merged, w') \<Longrightarrow>
     int (length merged) \<le> limit"
  using merge_all_length [of "[]" limit _ "{}"]
  by (auto simp: combined_search_def bind_action_def return_action_def
      split: prod.splits sum.splits)

lemma merge_snapshot_seen:
  "merge_snapshot xs seen merged = (seen', merged') \<Longrightarrow> seen' = seen \<union> name ` set xs"
  by (induction xs arbitrary: seen merged) (auto split: if_splits)

lemma merge_snapshot_known:
  "name ` set xs \<subseteq> seen \<Longrightarrow> merge_snapshot xs seen merged = (seen, merged)"
  by (induction xs arbitrary: seen merged) auto

lemma merge_snapshot_distinct:
  "seen = name ` set merged \<Longrightarrow> distinct (map name merged) \<Longrightarrow>
     merge_snapshot xs seen merged = (seen', merged') \<Longrightarrow>
     seen' = name ` set merged' \<and> distinct (map name merged')"
proof (induction xs arbitrary: seen merged)
  case Nil
  then show ?case by auto
next
  case (Cons a xs)
  show ?case
  proof (cases "name a \<in> seen")
    case True
    with Cons.prems have "merge_snapshot xs seen merged = (seen', merged')" by simp
    from Cons.IH [OF Cons.prems(1) Cons.prems(2) this] show ?thesis .
  next
    case False
    with Cons.prems have m: "merge_snapshot xs (insert (name a) seen) (merged @ [a]) = (seen', merged')"
      by simp
    have s: "insert (name a) seen = name ` set (merged @ [a])"
      using Cons.prems(1) by auto
    have d: "distinct (map name (merged @ [a]))"
      using Cons.prems(1) Cons.prems(2) False by auto
    from Cons.IH [OF s d m] show ?thesis .
  qed
qed

lemma combined_get_skills_duplicate_child:
  assumes "get_skills R w = (Inr xs, w)"
  shows "combined_get_skills [R, R] w = combined_get_skills [R] w"
    and "\<exists>merged. combined_get_skills [R, R] w = (Inr merged, w) \<and> distinct (map name merged)
           \<and> name ` set merged = name ` set xs"
proof -
  obtain s1 m1 where m: "merge_snapshot xs {} [] = (s1, m1)"
    by (cases "merge_snapshot xs {} []") auto
  from merge_snapshot_seen [OF m] have s1: "s1 = name ` set xs" by simp
  then have again: "merge_snapshot xs s1 m1 = (s1, m1)"
    by (simp add: merge_snapshot_known)
  from merge_snapshot_distinct [OF _ _ m] have d: "s1 = name ` set m1 \<and> distinct (map name m1)"
    by simp
  have two: "combined_get_skills [R, R] w = (Inr m1, w)"
    using assms m again by (simp add: combined_get_skills_def)
  have one: "combined_get_skills [R] w = (Inr m1, w)"
    using assms m by (simp add: combined_get_skills_def)
  from two one show "combined_get_skills [R, R] w = combined_get_skills [R] w" by simp
  from two d s1 show "\<exists>merged. combined_get_skills [R, R] w = (Inr merged, w)
      \<and> distinct (map name merged) \<and> name ` set merged = name ` set xs"
    by auto
qed

subsection \<open>C6: the merge of the combined \<^verbatim>\<open>search\<close> and the limit\<close>

text \<open>
  C6. The claim bounds the output of \<^verbatim>\<open>search(query, limit)\<close> by \<open>limit\<close>. The merge loop
  tests \<^verbatim>\<open>len(merged) >= limit\<close> only after it has appended, and \<^verbatim>\<open>GitSkillsRegistry.search\<close>
  tests its own limit the same way; so with limit 0 a combined registry over a Git
  registry whose cache holds the matching skill \<^verbatim>\<open>pdf\<close> returns one skill, more than the
  limit. (For a limit of at least one the bound holds: \<open>combined_search_length\<close>.)
\<close>

theorem combined_search_exceeds_limit_zero:
  "combined_search [GitSkillsRegistry mem_os example_registry] ''pdf'' 0 pdf_world
     = (Inr [mk_skill ''pdf'' ''PDF manipulation skill.'' ''PDF instructions.''], pdf_world)
   \<and> \<not> int (length [mk_skill ''pdf'' ''PDF manipulation skill.'' ''PDF instructions.'']) \<le> 0"
  by code_simp

subsection \<open>Helper facts about the Git registry's cache\<close>







lemma effects_perform: "effects (snd (perform ef f w)) = effects w @ [ef]"
  by (simp add: perform_def split: prod.splits)


lemma clone_effects_mkdir_ok:
  "fst (mkdir os (target_dir self) (ext w)) = None \<Longrightarrow>
     \<exists>rest. effects (snd (clone os self w)) = effects w @ Mkdir (target_dir self) # Clone # rest"
  by (auto simp: clone_def perform_def split: prod.splits option.splits)




subsection \<open>C2: when \<^verbatim>\<open>search\<close> and \<^verbatim>\<open>get\<close> synchronise\<close>




subsection \<open>Helper facts about credentials\<close>

text \<open>
  \<^verbatim>\<open>_sanitize_url\<close> rewrites the URL only when \<^verbatim>\<open>urlparse\<close> reports a non-empty password,
  and \<^verbatim>\<open>__repr__\<close> is built from the sanitised URL, the sub-path and the target
  directory: neither the token argument nor the environment's token enters it.
\<close>

lemma sanitize_url_without_password:
  "password U (urlparse U url) = None \<Longrightarrow> sanitize_url U url = url"
  by (simp add: sanitize_url_def)

lemma repr_independent_of_token_argument:
  "git_repr (make_registry U os environ_token tmp_dir (args\<lparr>arg_token := t\<rparr>) x)
     = git_repr (make_registry U os environ_token' tmp_dir (args\<lparr>arg_token := t'\<rparr>) x)"
  by (simp add: git_repr_def make_registry_def Let_def)

subsection \<open>C9: a token in the repository URL\<close>

text \<open>
  C9. The claim: for a registry constructed with a token, also one embedded in an
  HTTPS URL, the token appears neither in \<^verbatim>\<open>repr\<close> or \<^verbatim>\<open>str\<close> nor in the message of a
  raised exception. For the URL \<^verbatim>\<open>https://ghp_secret@github.com/o/r\<close>, where the token is the
  user name and there is no password, \<^verbatim>\<open>_sanitize_url\<close> returns the URL unchanged: the
  token is in \<^verbatim>\<open>repr(registry)\<close> and \<^verbatim>\<open>str(registry)\<close>, and in the
  \<^verbatim>\<open>SkillRegistryError\<close> the constructor raises when the clone fails.
\<close>

theorem repr_exposes_token_in_url:
  "py_password (py_urlparse ''https://ghp_secret@github.com/o/r'') = None
   \<and> clean_repo_url (make_registry py_urllib mem_os None [''tmp''] token_url_args empty_disk)
     = ''https://ghp_secret@github.com/o/r''
   \<and> git_repr (make_registry py_urllib mem_os None [''tmp''] token_url_args empty_disk)
     = ''GitSkillsRegistry(repo_url='' @ apostrophe @ ''https://ghp_secret@github.com/o/r''
         @ apostrophe @ '', path='' @ apostrophe @ apostrophe @ '', target_dir='' @ apostrophe
         @ ''/clone'' @ apostrophe @ '')''
   \<and> is_substring ''ghp_secret''
        (git_repr (make_registry py_urllib mem_os None [''tmp''] token_url_args empty_disk))
   \<and> is_substring ''ghp_secret''
        (git_str (make_registry py_urllib mem_os None [''tmp''] token_url_args empty_disk))
   \<and> fst (git_init py_urllib offline_os None [''tmp'']
             (token_url_args\<lparr>arg_auto_install := True\<rparr>) empty_disk)
     = Inl (SkillRegistryError (''Failed to clone repository '' @ apostrophe
              @ ''https://ghp_secret@github.com/o/r'' @ apostrophe
              @ '': fatal: unable to access''))"
  by code_simp

subsection \<open>Helper facts about \<^verbatim>\<open>install\<close>\<close>

lemma find_source_nonempty: "find_source cache n = Some src \<Longrightarrow> cache \<noteq> []"
  by (auto simp: find_source_def)

lemma git_install_found:
  "find_source (cached_skills w) n = Some src \<Longrightarrow>
     git_install os self n target w = install_from os src n target w"
  by (frule find_source_nonempty)
     (simp add: git_install_def ensure_skills_loaded_def bind_action_def)

lemma check_sources_escape:
  "\<exists>f \<in> set fs. (is_symlink os f x \<or> is_file os f x) \<and> \<not> is_relative_to (resolve os f x) src
   \<Longrightarrow> \<exists>f. check_sources os src fs x = Some (source_escapes f)"
  by (induction fs) auto

lemma check_sources_is_escape:
  "check_sources os src fs x = Some e \<Longrightarrow> \<exists>f. e = source_escapes f"
  by (induction fs) (auto split: if_splits)

lemma copy_skill_effects:
  "\<exists>rest. effects (snd (copy_skill os s d w)) = effects w @ rest
      \<and> set rest \<subseteq> {Rmtree d, Copytree s d}"
  by (auto simp: copy_skill_def perform_def split: prod.splits option.splits if_splits)

lemma install_steps:
  assumes found: "find_source (cached_skills w) n = Some src"
    and root: "dest_root = resolve os (parse_path target) (ext w)"
    and made: "mkdir os dest_root (ext w) = (None, x1)"
    and w1: "w1 = w\<lparr>effects := effects w @ [Mkdir dest_root], ext := x1\<rparr>"
    and dest: "dest = path_join dest_root n"
  shows "git_install os self n target w =
      (if \<not> is_relative_to (resolve os dest x1) dest_root
       then (Inl (destination_escapes dest dest_root), w1)
       else case check_sources os (resolve os src x1) (rglob os (resolve os src x1) x1) x1 of
              Some e \<Rightarrow> (Inl e, w1)
            | None \<Rightarrow> copy_skill os (resolve os src x1) dest w1)"
  using made unfolding root dest w1
  by (simp add: git_install_found [OF found] install_from_def perform_def Let_def)

lemma install_effects:
  assumes step: "r =
      (if \<not> inside then (Inl e0, w1)
       else case chk of Some e \<Rightarrow> (Inl e, w1) | None \<Rightarrow> copy_skill os s d w1)"
  shows "\<exists>rest. effects (snd r) = effects w1 @ rest
            \<and> set rest \<subseteq> {Rmtree d, Copytree s d}
            \<and> (rest \<noteq> [] \<longrightarrow> inside \<and> chk = None)"
proof (cases "inside \<and> chk = None")
  case True
  then have r: "r = copy_skill os s d w1"
    by (simp add: step)
  from copy_skill_effects [of os s d w1] obtain rest where
    a: "effects (snd (copy_skill os s d w1)) = effects w1 @ rest"
    and b: "set rest \<subseteq> {Rmtree d, Copytree s d}" by blast
  have "effects (snd r) = effects w1 @ rest \<and> set rest \<subseteq> {Rmtree d, Copytree s d}
          \<and> (rest \<noteq> [] \<longrightarrow> inside \<and> chk = None)"
    using a b True by (simp add: r)
  then show ?thesis by (rule exI)
next
  case False
  have "snd r = w1"
  proof (cases inside)
    case True
    with False obtain e where "chk = Some e" by (cases chk) auto
    with True show ?thesis by (simp add: step)
  next
    case False
    then show ?thesis by (simp add: step)
  qed
  then have "effects (snd r) = effects w1 @ [] \<and> set [] \<subseteq> {Rmtree d, Copytree s d}
          \<and> ([] \<noteq> [] \<longrightarrow> inside \<and> chk = None)"
    by simp
  then show ?thesis by (rule exI)
qed

subsection \<open>C8: path safety of \<^verbatim>\<open>install\<close>\<close>

text \<open>
  C8, as the code has it. Let the cache hold a skill named \<open>n\<close> with a source directory (a non-empty
  \<^verbatim>\<open>uri\<close>), and let the creation of the target directory succeed. Then:
  \<^item> when \<open>target_dir / n\<close> resolves outside \<open>target_dir\<close> (as for \<^verbatim>\<open>../escape\<close>),
    \<^verbatim>\<open>install\<close> raises \<^verbatim>\<open>SkillRegistryError\<close>, having done nothing but create \<open>target_dir\<close>;
  \<^item> when the destination is inside but some file or symbolic link below the source
    directory resolves outside it, \<^verbatim>\<open>install\<close> raises \<^verbatim>\<open>SkillRegistryError\<close>, again before
    any removal or copy;
  \<^item> in every case, what \<^verbatim>\<open>install\<close> changes beyond creating \<open>target_dir\<close> is a removal of
    or a copy to the destination, and only after both checks have passed: nothing is
    written outside \<open>target_dir\<close>.
\<close>

theorem git_install_path_safety:
  assumes found: "find_source (cached_skills w) n = Some src"
    and root: "dest_root = resolve os (parse_path target) (ext w)"
    and made: "mkdir os dest_root (ext w) = (None, x1)"
    and w1: "w1 = w\<lparr>effects := effects w @ [Mkdir dest_root], ext := x1\<rparr>"
    and dest: "dest = path_join dest_root n"
  shows "(\<not> is_relative_to (resolve os dest x1) dest_root \<longrightarrow>
            git_install os self n target w = (Inl (destination_escapes dest dest_root), w1))
       \<and> (is_relative_to (resolve os dest x1) dest_root
            \<and> (\<exists>f \<in> set (rglob os (resolve os src x1) x1).
                  (is_symlink os f x1 \<or> is_file os f x1)
                  \<and> \<not> is_relative_to (resolve os f x1) (resolve os src x1)) \<longrightarrow>
            (\<exists>f. git_install os self n target w = (Inl (source_escapes f), w1)))
       \<and> (\<exists>rest. effects (snd (git_install os self n target w)) = effects w1 @ rest
            \<and> set rest \<subseteq> {Rmtree dest, Copytree (resolve os src x1) dest}
            \<and> (rest \<noteq> [] \<longrightarrow>
                  is_relative_to (resolve os dest x1) dest_root
                  \<and> check_sources os (resolve os src x1)
                        (rglob os (resolve os src x1) x1) x1 = None))"
proof -
  note step = install_steps [OF found root made w1 dest, of self]
  have 1: "\<not> is_relative_to (resolve os dest x1) dest_root \<longrightarrow>
            git_install os self n target w = (Inl (destination_escapes dest dest_root), w1)"
    by (simp add: step)
  have 2: "is_relative_to (resolve os dest x1) dest_root
            \<and> (\<exists>f \<in> set (rglob os (resolve os src x1) x1).
                  (is_symlink os f x1 \<or> is_file os f x1)
                  \<and> \<not> is_relative_to (resolve os f x1) (resolve os src x1)) \<longrightarrow>
            (\<exists>f. git_install os self n target w = (Inl (source_escapes f), w1))"
  proof
    assume h: "is_relative_to (resolve os dest x1) dest_root
            \<and> (\<exists>f \<in> set (rglob os (resolve os src x1) x1).
                  (is_symlink os f x1 \<or> is_file os f x1)
                  \<and> \<not> is_relative_to (resolve os f x1) (resolve os src x1))"
    then obtain f where
      c: "check_sources os (resolve os src x1) (rglob os (resolve os src x1) x1) x1
         = Some (source_escapes f)"
      using check_sources_escape [of "rglob os (resolve os src x1) x1" os x1 "resolve os src x1"]
      by blast
    from h have "git_install os self n target w = (Inl (source_escapes f), w1)"
      by (simp add: step c)
    then show "\<exists>f. git_install os self n target w = (Inl (source_escapes f), w1)"
      by (rule exI)
  qed
  note 3 = install_effects [OF step]
  from 1 2 3 show ?thesis
    by (intro conjI)
qed

theorem git_install_path_safety_witness:
  "git_install mem_os example_registry ''../escape'' ''/t'' escape_world
     = (Inl (destination_escapes [''t'', ''..'', ''escape''] [''t'']),
        escape_world\<lparr>effects := [Mkdir [''t'']]\<rparr>)
   \<and> (\<exists>f. git_install mem_os example_registry ''pdf'' ''/t'' link_world
          = (Inl (source_escapes f), link_world\<lparr>effects := [Mkdir [''t'']]\<rparr>))"
proof -
  have a1: "find_source (cached_skills escape_world) ''../escape'' = Some [''clone'', ''escape'']"
    by code_simp
  have a2: "[''t''] = resolve mem_os (parse_path ''/t'') (ext escape_world)"
    by code_simp
  have a3: "mkdir mem_os [''t''] (ext escape_world) = (None, ext escape_world)"
    by code_simp
  have a4: "escape_world\<lparr>effects := [Mkdir [''t'']]\<rparr>
              = escape_world\<lparr>effects := effects escape_world @ [Mkdir [''t'']],
                              ext := ext escape_world\<rparr>"
    by (simp add: escape_world_def)
  have a5: "[''t'', ''..'', ''escape''] = path_join [''t''] ''../escape''"
    by code_simp
  have a6: "\<not> is_relative_to (resolve mem_os [''t'', ''..'', ''escape''] (ext escape_world)) [''t'']"
    by code_simp
  from git_install_path_safety [OF a1 a2 a3 a4 a5, of example_registry] a6
  have 1: "git_install mem_os example_registry ''../escape'' ''/t'' escape_world
     = (Inl (destination_escapes [''t'', ''..'', ''escape''] [''t'']),
        escape_world\<lparr>effects := [Mkdir [''t'']]\<rparr>)"
    by blast
  have b1: "find_source (cached_skills link_world) ''pdf'' = Some [''clone'', ''pdf'']"
    by code_simp
  have b2: "[''t''] = resolve mem_os (parse_path ''/t'') (ext link_world)"
    by code_simp
  have b3: "mkdir mem_os [''t''] (ext link_world) = (None, ext link_world)"
    by code_simp
  have b4: "link_world\<lparr>effects := [Mkdir [''t'']]\<rparr>
              = link_world\<lparr>effects := effects link_world @ [Mkdir [''t'']],
                            ext := ext link_world\<rparr>"
    by (simp add: link_world_def)
  have b5: "[''t'', ''pdf''] = path_join [''t''] ''pdf''"
    by code_simp
  have b6: "is_relative_to (resolve mem_os [''t'', ''pdf''] (ext link_world)) [''t'']"
    by code_simp
  have b7: "[''clone'', ''pdf'', ''escape.txt'']
              \<in> set (rglob mem_os (resolve mem_os [''clone'', ''pdf''] (ext link_world)) (ext link_world))
            \<and> is_symlink mem_os [''clone'', ''pdf'', ''escape.txt''] (ext link_world)
            \<and> \<not> is_relative_to (resolve mem_os [''clone'', ''pdf'', ''escape.txt''] (ext link_world))
                  (resolve mem_os [''clone'', ''pdf''] (ext link_world))"
    by code_simp
  from git_install_path_safety [OF b1 b2 b3 b4 b5, of example_registry] b6 b7
  have 2: "\<exists>f. git_install mem_os example_registry ''pdf'' ''/t'' link_world
          = (Inl (source_escapes f), link_world\<lparr>effects := [Mkdir [''t'']]\<rparr>)"
    by blast
  from 1 2 show ?thesis by (rule conjI)
qed

text \<open>
  The claim as stated (every name that includes a traversal sequence makes \<^verbatim>\<open>install\<close>
  raise) fails for a name whose traversal stays inside the target directory: the check is
  on the resolved destination, so \<^verbatim>\<open>a/../b\<close> passes it and is installed at \<^verbatim>\<open>/t/b\<close>, inside
  \<^verbatim>\<open>/t\<close>, with no exception.
\<close>

theorem git_install_inside_traversal_counterexample:
  "is_substring ''../'' ''a/../b''
   \<and> git_install mem_os example_registry ''a/../b'' ''/t'' inside_world
     = (Inr ''/t/a/../b'',
        inside_world\<lparr>effects := [Mkdir [''t''],
                                  Copytree [''clone'', ''ab''] [''t'', ''a'', ''..'', ''b'']],
                      ext := (ext inside_world)\<lparr>mem_files :=
                               [[''clone'', ''ab'', ''SKILL.md''], [''t'', ''b'', ''SKILL.md'']]\<rparr>\<rparr>)"
  by code_simp

subsection \<open>Helper facts about the merge and the limit\<close>







subsection \<open>C10: every child is asked for the same limit\<close>




text \<open>
  A result shorter than the limit needs every child to return fewer than \<open>limit\<close>
  distinct names. That happens when a child's own results repeat a name: a child holding
  two skills named \<^verbatim>\<open>pdf\<close> before \<^verbatim>\<open>pdf-tools\<close> and \<^verbatim>\<open>pdf-forms\<close> gives, alone and with
  limit 2, a single merged skill.
\<close>

lemma combined_search_repeated_name_example:
  "combined_search
      [StubRegistry [mk_skill ''pdf'' ''second'' ''b'', mk_skill ''pdf'' ''third'' ''c'',
                     mk_skill ''pdf-tools'' ''tools'' ''d'', mk_skill ''pdf-forms'' ''forms'' ''e'']]
      ''pdf'' 2 ()
     = (Inr [mk_skill ''pdf'' ''second'' ''b''], ())
   \<and> combined_search
      [StubRegistry [mk_skill ''pdf'' ''first'' ''a''],
       StubRegistry [mk_skill ''pdf'' ''second'' ''b'', mk_skill ''pdf'' ''third'' ''c'',
                     mk_skill ''pdf-tools'' ''tools'' ''d'', mk_skill ''pdf-forms'' ''forms'' ''e'']]
      ''pdf'' 2 ()
     = (Inr [mk_skill ''pdf'' ''first'' ''a''], ())"
  by code_simp

end
